theory Spec2Isabelle
  imports
    Complex_Main
    "HOL-Library.Char_ord"
    "HOL-Library.List_Lexorder"
    "HOL-Library.Product_Lexorder"
    "HOL-Library.Log_Nat"
    "HOL-Library.Word"
begin

section \<open>Values of the two tables\<close>

text \<open>
  The dashboard (\<^verbatim>\<open>dashboard_5_oov.py\<close>) reads two CSV tables into pandas data frames
  and only ever filters, groups and aggregates them. A data frame is modelled as the list
  of its rows, in row order.

  A categorical cell is a string or is missing (pandas reads an empty CSV cell as NaN);
  a missing cell is \<open>None\<close>. The same type serves for a value picked in a select box:
  the options are \<^verbatim>\<open>["All"] + list(df[col].unique())\<close>, so the missing value itself can
  be among them.

  An integer column is an int64 column: a 64-bit word, read as a signed number by
  \<open>sint\<close>; sums of such a column wrap around as pandas' sums do. Row counts are far from
  that range and are plain integers.

  A float is a binary64 number: a finite value, an infinity or NaN. A finite value is kept
  as the rational it stands for, and every arithmetic operation rounds its exact result to
  the nearest binary64 number, ties to the even significand (\<open>fl\<close>). The sign of a zero
  is not kept.
\<close>

type_synonym cell = "string option"

type_synonym int64 = "64 word"

datatype pyfloat = Fin rat | PInf | NInf | NaN

subsection \<open>Rounding to binary64\<close>

text \<open>Rounding to the nearest integer, ties to the even one (numpy's \<^verbatim>\<open>rint\<close>).\<close>

definition round_half_even :: "rat \<Rightarrow> int" where
  "round_half_even x =
     (let f = \<lfloor>x\<rfloor>; d = x - of_int f
      in if d < 1 / 2 then f
         else if 1 / 2 < d then f + 1
         else if even f then f else f + 1)"

text \<open>The exponent \<open>e\<close> of a positive rational: \<open>2 ^ e \<le> x < 2 ^ (e + 1)\<close>.\<close>

definition ilog2 :: "rat \<Rightarrow> int" where
  "ilog2 x =
     (if 1 \<le> x then int (floorlog 2 (nat \<lfloor>x\<rfloor>)) - 1
      else - int (floorlog 2 (nat (\<lceil>1 / x\<rceil> - 1))))"

text \<open>
  The binary64 number nearest to a rational: 53 significant bits, the least exponent
  \<open>-1074\<close> of the subnormal numbers, an infinity from \<open>2 ^ 1024\<close> on.
\<close>

definition fl :: "rat \<Rightarrow> pyfloat" where
  "fl x =
     (if x = 0 then Fin 0
      else let a = \<bar>x\<bar>;
               e = max (ilog2 a - 52) (- 1074);
               y = of_int (round_half_even (a / 2 powi e)) * 2 powi e
           in if 2 ^ 1024 \<le> y then (if 0 < x then PInf else NInf)
              else Fin (if 0 < x then y else - y))"

subsection \<open>Float arithmetic and comparison\<close>

text \<open>\<^verbatim>\<open>a <= b\<close> on floats: false as soon as one side is NaN.\<close>

fun fle :: "pyfloat \<Rightarrow> pyfloat \<Rightarrow> bool" where
  "fle NaN _ = False"
| "fle _ NaN = False"
| "fle NInf _ = True"
| "fle _ PInf = True"
| "fle (Fin a) (Fin b) = (a \<le> b)"
| "fle _ _ = False"

definition fge :: "pyfloat \<Rightarrow> pyfloat \<Rightarrow> bool" where
  "fge a b = fle b a"

fun fneg :: "pyfloat \<Rightarrow> pyfloat" where
  "fneg (Fin a) = Fin (- a)"
| "fneg PInf = NInf"
| "fneg NInf = PInf"
| "fneg NaN = NaN"

fun fadd :: "pyfloat \<Rightarrow> pyfloat \<Rightarrow> pyfloat" where
  "fadd NaN _ = NaN"
| "fadd _ NaN = NaN"
| "fadd (Fin a) (Fin b) = fl (a + b)"
| "fadd PInf NInf = NaN"
| "fadd NInf PInf = NaN"
| "fadd PInf _ = PInf"
| "fadd _ PInf = PInf"
| "fadd NInf _ = NInf"
| "fadd _ NInf = NInf"

definition fsub :: "pyfloat \<Rightarrow> pyfloat \<Rightarrow> pyfloat" where
  "fsub a b = fadd a (fneg b)"

fun fmul :: "pyfloat \<Rightarrow> pyfloat \<Rightarrow> pyfloat" where
  "fmul NaN _ = NaN"
| "fmul _ NaN = NaN"
| "fmul (Fin a) (Fin b) = fl (a * b)"
| "fmul (Fin a) PInf = (if a = 0 then NaN else if 0 < a then PInf else NInf)"
| "fmul (Fin a) NInf = (if a = 0 then NaN else if 0 < a then NInf else PInf)"
| "fmul PInf (Fin b) = (if b = 0 then NaN else if 0 < b then PInf else NInf)"
| "fmul NInf (Fin b) = (if b = 0 then NaN else if 0 < b then NInf else PInf)"
| "fmul PInf PInf = PInf"
| "fmul NInf NInf = PInf"
| "fmul PInf NInf = NInf"
| "fmul NInf PInf = NInf"

text \<open>
  Division of floats raises nothing in numpy: a finite value divided by zero is an
  infinity, or NaN for \<open>0 / 0\<close>.
\<close>

fun fdiv :: "pyfloat \<Rightarrow> pyfloat \<Rightarrow> pyfloat" where
  "fdiv NaN _ = NaN"
| "fdiv _ NaN = NaN"
| "fdiv (Fin a) (Fin b) =
     (if b = 0 then (if a = 0 then NaN else if 0 < a then PInf else NInf) else fl (a / b))"
| "fdiv (Fin a) PInf = Fin 0"
| "fdiv (Fin a) NInf = Fin 0"
| "fdiv PInf (Fin b) = (if 0 \<le> b then PInf else NInf)"
| "fdiv NInf (Fin b) = (if 0 \<le> b then NInf else PInf)"
| "fdiv _ _ = NaN"

fun rint :: "pyfloat \<Rightarrow> pyfloat" where
  "rint (Fin a) = Fin (of_int (round_half_even a))"
| "rint x = x"

text \<open>
  \<^verbatim>\<open>.round(d)\<close> is numpy's rounding: multiply by \<open>10 ^ d\<close>, round to the nearest integer,
  divide by \<open>10 ^ d\<close>, each step in binary64.
\<close>

definition round_decimals :: "nat \<Rightarrow> pyfloat \<Rightarrow> pyfloat" where
  "round_decimals d x = fdiv (rint (fmul x (Fin (10 ^ d)))) (Fin (10 ^ d))"

text \<open>
  An integer becomes the nearest float; \<^verbatim>\<open>int_series / n\<close> is numpy's true division, of
  the two operands as floats.
\<close>

definition float_of_int :: "int \<Rightarrow> pyfloat" where
  "float_of_int n = fl (of_int n)"

definition true_divide :: "int \<Rightarrow> int \<Rightarrow> pyfloat" where
  "true_divide a b = fdiv (float_of_int a) (float_of_int b)"

text \<open>
  \<^verbatim>\<open>.astype(int)\<close> on a float column cuts the fraction off. What a float outside of int64
  (or NaN) becomes is left to the processor; the usual one gives the least int64.
\<close>

definition astype_int64 :: "pyfloat \<Rightarrow> int64" where
  "astype_int64 x =
     (case x of
        Fin a \<Rightarrow>
          (let t = (if 0 \<le> a then \<lfloor>a\<rfloor> else \<lceil>a\<rceil>)
           in if - (2 ^ 63) \<le> t \<and> t < 2 ^ 63 then word_of_int t else word_of_int (- (2 ^ 63)))
      | _ \<Rightarrow> word_of_int (- (2 ^ 63)))"

text \<open>The rational value of a finite float (and 0 for the others), to state bounds.\<close>

definition fin_value :: "pyfloat \<Rightarrow> rat" where
  "fin_value x = (case x of Fin a \<Rightarrow> a | _ \<Rightarrow> 0)"

text \<open>
  \<^verbatim>\<open>series == value\<close> on a column of strings: a missing cell equals nothing, and nothing
  equals the missing value. \<^verbatim>\<open>series.isin(values)\<close> likewise.
\<close>

definition cell_eq :: "cell \<Rightarrow> cell \<Rightarrow> bool" where
  "cell_eq c v = (c \<noteq> None \<and> c = v)"

definition isin :: "cell \<Rightarrow> string list \<Rightarrow> bool" where
  "isin c vs = (case c of None \<Rightarrow> False | Some s \<Rightarrow> s \<in> set vs)"

section \<open>The records\<close>

text \<open>
  One row of \<^verbatim>\<open>all_analysis_data.csv\<close>. \<open>Domain\<close> is always present:
  \<^verbatim>\<open>sorted(filtered_df["Domain"].unique())\<close> in \<^verbatim>\<open>run_domain_analysis\<close> compares the domains
  as strings.
\<close>

record DomainRecord =
  Domain :: string
  Global_Classification :: cell
  Sentiment :: cell
  Local_Category :: cell
  Topic_Category :: cell
  Score :: pyfloat
  Combination_Total_Count :: int64

text \<open>
  One row of \<^verbatim>\<open>scatter_analysis.csv\<close>. Its columns \<^verbatim>\<open>party\<close>, \<^verbatim>\<open>Local_Category\<close>,
  \<^verbatim>\<open>Topic_Category\<close> and \<^verbatim>\<open>Score\<close> carry the prefix \<open>post_\<close> here, the names being taken
  by the other record and by the filter dictionary.
\<close>

record PostRecord =
  post_party :: cell
  post_Sentiment_Category :: cell
  post_Local_Category :: cell
  post_Topic_Category :: cell
  post_Score :: pyfloat
  post_ave_sentiment :: pyfloat

text \<open>The dictionary \<^verbatim>\<open>filters\<close> that both pages build from the sidebar.\<close>

record filters =
  score_range :: "pyfloat \<times> pyfloat"
  party :: cell
  sentiment :: cell
  local_cat :: cell
  topic :: cell

section \<open>\<^verbatim>\<open>filter_dataframe\<close>\<close>

definition filter_dataframe :: "DomainRecord list \<Rightarrow> filters \<Rightarrow> DomainRecord list" where
  "filter_dataframe df f =
     (let d0 = filter (\<lambda>r. fge (Score r) (fst (score_range f)) \<and>
                             fle (Score r) (snd (score_range f))) df;
          d1 = (if party f \<noteq> Some ''All''
                then filter (\<lambda>r. cell_eq (Global_Classification r) (party f)) d0 else d0);
          d2 = (if sentiment f \<noteq> Some ''All''
                then filter (\<lambda>r. cell_eq (Sentiment r) (sentiment f)) d1 else d1);
          d3 = (if local_cat f \<noteq> Some ''All''
                then filter (\<lambda>r. cell_eq (Local_Category r) (local_cat f)) d2
                else filter (\<lambda>r. cell_eq (Local_Category r) (Some ''all'')) d2);
          d4 = (if topic f \<noteq> Some ''All''
                then filter (\<lambda>r. cell_eq (Topic_Category r) (topic f)) d3 else d3)
      in d4)"

section \<open>The filter of \<^verbatim>\<open>run_posts_analysis\<close>\<close>

definition run_posts_analysis_filter :: "PostRecord list \<Rightarrow> filters \<Rightarrow> PostRecord list" where
  "run_posts_analysis_filter posts_df f =
     (let p0 = filter (\<lambda>r. fge (post_Score r) (fst (score_range f)) \<and>
                             fle (post_Score r) (snd (score_range f))) posts_df;
          p1 = (if party f \<noteq> Some ''All''
                then filter (\<lambda>r. cell_eq (post_party r) (party f)) p0 else p0);
          p2 = (if sentiment f \<noteq> Some ''All''
                then filter (\<lambda>r. cell_eq (post_Sentiment_Category r) (sentiment f)) p1 else p1);
          p3 = (if local_cat f \<noteq> Some ''All''
                then filter (\<lambda>r. cell_eq (post_Local_Category r) (local_cat f)) p2 else p2);
          p4 = (if topic f \<noteq> Some ''All''
                then filter (\<lambda>r. cell_eq (post_Topic_Category r) (topic f)) p3 else p3)
      in p4)"

section \<open>Grouping and aggregation\<close>

text \<open>
  \<^verbatim>\<open>df.groupby(key)\<close> with pandas' defaults: one group per distinct key, the groups in
  ascending order of the key (strings compare character by character, by code point),
  the rows of a group in their order in the frame.
\<close>

definition groupby :: "('r \<Rightarrow> 'k::linorder) \<Rightarrow> 'r list \<Rightarrow> ('k \<times> 'r list) list" where
  "groupby key df = map (\<lambda>k. (k, filter (\<lambda>r. key r = k) df)) (sort (remdups (map key df)))"

text \<open>
  The aggregations \<^verbatim>\<open>"mean"\<close>, \<^verbatim>\<open>"min"\<close>, \<^verbatim>\<open>"max"\<close> and \<^verbatim>\<open>"first"\<close> skip missing values
  and give a missing value when nothing is left. The mean is pandas' \<^verbatim>\<open>group_mean\<close>: a
  compensated (Kahan) sum of the values, divided by their number; a compensation that is
  NaN (after an infinity) is reset to zero.
\<close>

definition fmin :: "pyfloat \<Rightarrow> pyfloat \<Rightarrow> pyfloat" where
  "fmin a b = (if fle a b then a else b)"

definition fmax :: "pyfloat \<Rightarrow> pyfloat \<Rightarrow> pyfloat" where
  "fmax a b = (if fle a b then b else a)"

definition kahan_step :: "pyfloat \<times> pyfloat \<Rightarrow> pyfloat \<Rightarrow> pyfloat \<times> pyfloat" where
  "kahan_step acc val =
     (let sumx = fst acc; compensation = snd acc;
          y = fsub val compensation;
          t = fadd sumx y;
          c = fsub (fsub t sumx) y
      in (t, if c = NaN then Fin 0 else c))"

definition agg_mean :: "pyfloat list \<Rightarrow> pyfloat" where
  "agg_mean xs =
     (let vs = filter (\<lambda>x. x \<noteq> NaN) xs
      in if vs = [] then NaN
         else fdiv (fst (foldl kahan_step (Fin 0, Fin 0) vs)) (float_of_int (int (length vs))))"

definition agg_min :: "pyfloat list \<Rightarrow> pyfloat" where
  "agg_min xs =
     (case filter (\<lambda>x. x \<noteq> NaN) xs of [] \<Rightarrow> NaN | v # vs \<Rightarrow> foldl fmin v vs)"

definition agg_max :: "pyfloat list \<Rightarrow> pyfloat" where
  "agg_max xs =
     (case filter (\<lambda>x. x \<noteq> NaN) xs of [] \<Rightarrow> NaN | v # vs \<Rightarrow> foldl fmax v vs)"

fun agg_first :: "cell list \<Rightarrow> cell" where
  "agg_first [] = None"
| "agg_first (None # cs) = agg_first cs"
| "agg_first (Some s # cs) = Some s"

text \<open>
  \<^verbatim>\<open>sort_values(col, ascending=False)\<close>: pandas reverses the rows, sorts them in
  ascending order and reverses the result. The sort is taken to be stable, which
  leaves rows with equal keys in their original order; no statement below depends on the
  order of such rows.
\<close>

definition sort_values_desc :: "('r \<Rightarrow> int) \<Rightarrow> 'r list \<Rightarrow> 'r list" where
  "sort_values_desc col rows = rev (sort_key col (rev rows))"

section \<open>\<^verbatim>\<open>calculate_domain_statistics\<close>\<close>

text \<open>The rows of the returned frame, with its column names (spaces as underscores).\<close>

record DomainStats =
  stat_Domain :: string
  Total_Articles :: int64
  Democrat_Articles :: int64
  Republican_Articles :: int64
  Average_Score :: pyfloat
  Min_Score :: pyfloat
  Max_Score :: pyfloat
  Party :: cell

text \<open>
  The first statement: group by \<^verbatim>\<open>Domain\<close>, aggregate, round to two decimals (the integer
  sum and the string are not touched by \<^verbatim>\<open>round\<close>), then sort by the total, a signed
  number. A row is \<open>(Domain, Total Articles, Average Score, Min Score, Max Score, Party)\<close>.
\<close>

type_synonym stats_row = "string \<times> int64 \<times> pyfloat \<times> pyfloat \<times> pyfloat \<times> cell"

definition agg_domain :: "string \<times> DomainRecord list \<Rightarrow> stats_row" where
  "agg_domain g =
     (fst g,
      sum_list (map Combination_Total_Count (snd g)),
      round_decimals 2 (agg_mean (map Score (snd g))),
      round_decimals 2 (agg_min (map Score (snd g))),
      round_decimals 2 (agg_max (map Score (snd g))),
      agg_first (map Global_Classification (snd g)))"

definition stats_df :: "DomainRecord list \<Rightarrow> stats_row list" where
  "stats_df df =
     sort_values_desc (\<lambda>s. sint (fst (snd s))) (map agg_domain (groupby Domain df))"

text \<open>
  \<^verbatim>\<open>dem_counts\<close> and \<^verbatim>\<open>rep_counts\<close>: the sums of \<^verbatim>\<open>Combination_Total_Count\<close> per domain
  over the rows whose classification is in the given list, as a series indexed by domain.
\<close>

definition party_counts :: "string list \<Rightarrow> DomainRecord list \<Rightarrow> (string \<times> int64) list" where
  "party_counts names df =
     map (\<lambda>g. (fst g, sum_list (map Combination_Total_Count (snd g))))
       (groupby Domain (filter (\<lambda>r. isin (Global_Classification r) names) df))"

definition dem_counts :: "DomainRecord list \<Rightarrow> (string \<times> int64) list" where
  "dem_counts df = party_counts [''Democrat'', ''Democratic'', ''dem''] df"

definition rep_counts :: "DomainRecord list \<Rightarrow> (string \<times> int64) list" where
  "rep_counts df = party_counts [''Republican'', ''rep''] df"

text \<open>
  \<^verbatim>\<open>stats_df["Domain"].map(counts).fillna(0).astype(int)\<close>, at the domain \<open>d\<close> of the column
  \<open>domains\<close>. When every domain of the column is in the index of \<open>counts\<close>, \<^verbatim>\<open>map\<close> gives
  an int64 column and the two other steps change nothing. When one is not, \<^verbatim>\<open>map\<close> gives
  a float column with NaN for it: every count found becomes a float, NaN becomes \<open>0.0\<close>,
  and the column is cast back to int64.
\<close>

definition map_fillna0 :: "(string \<times> int64) list \<Rightarrow> string list \<Rightarrow> string \<Rightarrow> int64" where
  "map_fillna0 counts domains d =
     (if list_all (\<lambda>k. map_of counts k \<noteq> None) domains
      then (case map_of counts d of None \<Rightarrow> 0 | Some n \<Rightarrow> n)
      else astype_int64
             (case map_of counts d of None \<Rightarrow> Fin 0 | Some n \<Rightarrow> float_of_int (sint n)))"

definition calculate_domain_statistics :: "DomainRecord list \<Rightarrow> DomainStats list" where
  "calculate_domain_statistics df =
     (let domains = map fst (stats_df df)
      in map (\<lambda>(d, tot, avg, mn, mx, p).
                \<lparr>stat_Domain = d, Total_Articles = tot,
                 Democrat_Articles = map_fillna0 (dem_counts df) domains d,
                 Republican_Articles = map_fillna0 (rep_counts df) domains d,
                 Average_Score = avg, Min_Score = mn, Max_Score = mx, Party = p\<rparr>)
           (stats_df df))"

section \<open>The sunburst table of \<^verbatim>\<open>run_posts_analysis\<close>\<close>

text \<open>
  \<^verbatim>\<open>groupby\<close> on four columns drops every row in which one of the four is missing
  (pandas' default \<^verbatim>\<open>dropna=True\<close>); \<open>group_key\<close> is the key of a row that is kept.
\<close>

type_synonym sunburst_key = "string \<times> string \<times> string \<times> string"

definition group_key :: "PostRecord \<Rightarrow> sunburst_key option" where
  "group_key r =
     (case (post_Topic_Category r, post_Local_Category r, post_Sentiment_Category r, post_party r)
      of (Some t, Some l, Some s, Some p) \<Rightarrow> Some (t, l, s, p)
       | _ \<Rightarrow> None)"

record SunburstRow =
  sb_key :: sunburst_key
  count :: int
  percentage_total :: pyfloat
  percentage_filtered :: pyfloat

text \<open>
  \<^verbatim>\<open>.size().reset_index(name='count')\<close> and the two percentage columns,
  \<^verbatim>\<open>(count / total * 100).round(1)\<close>. The \<^verbatim>\<open>label\<close> column only formats these three
  numbers as text and is left out.
\<close>

definition sunburst_counts :: "PostRecord list \<Rightarrow> (sunburst_key \<times> int) list" where
  "sunburst_counts filtered_posts =
     map (\<lambda>g. (fst g, int (length (snd g)))) (groupby id (List.map_filter group_key filtered_posts))"

definition percentage :: "int \<Rightarrow> int \<Rightarrow> pyfloat" where
  "percentage c n = round_decimals 1 (fmul (true_divide c n) (Fin 100))"

definition sunburst_data :: "PostRecord list \<Rightarrow> PostRecord list \<Rightarrow> SunburstRow list" where
  "sunburst_data posts_df filtered_posts =
     (let total_count_all = int (length posts_df);
          total_count_filtered = int (length filtered_posts)
      in map (\<lambda>(k, c). \<lparr>sb_key = k, count = c,
                         percentage_total = percentage c total_count_all,
                         percentage_filtered = percentage c total_count_filtered\<rparr>)
           (sunburst_counts filtered_posts))"

definition run_posts_analysis :: "PostRecord list \<Rightarrow> filters \<Rightarrow> SunburstRow list" where
  "run_posts_analysis posts_df f = sunburst_data posts_df (run_posts_analysis_filter posts_df f)"

section \<open>The domain search of \<^verbatim>\<open>run_domain_analysis\<close>\<close>

text \<open>
  \<^verbatim>\<open>filtered_df["Domain"].str.contains(search_text, case=False)\<close>: pandas' \<^verbatim>\<open>str.contains\<close>
  has \<^verbatim>\<open>regex=True\<close> by default, so the text typed by the user is a regular expression
  searched in the domain (\<^verbatim>\<open>re.search\<close> with \<^verbatim>\<open>re.IGNORECASE\<close>). The patterns interpreted here
  are those made of literal characters and of the dot, which stands for any character but
  the newline; a pattern with another operator of the regular expression syntax is outside
  of this fragment, and the search is \<open>None\<close> for it. Letters are those of ASCII.
\<close>

definition ascii_lower :: "char \<Rightarrow> char" where
  "ascii_lower c =
     (if CHR ''A'' \<le> c \<and> c \<le> CHR ''Z'' then char_of (of_char c + (32::nat)) else c)"

definition regex_operators :: "char list" where
  "regex_operators =
     [CHR 0x5C, CHR ''^'', CHR ''$'', CHR ''*'', CHR ''+'', CHR ''?'', CHR ''{'', CHR ''}'',
      CHR ''['', CHR '']'', CHR ''|'', CHR ''('', CHR '')'']"

fun match_here :: "string \<Rightarrow> string \<Rightarrow> bool" where
  "match_here [] s = True"
| "match_here (p # ps) [] = False"
| "match_here (p # ps) (c # cs) =
     ((if p = CHR ''.'' then c \<noteq> CHR 0x0A else ascii_lower p = ascii_lower c)
      \<and> match_here ps cs)"

fun re_search :: "string \<Rightarrow> string \<Rightarrow> bool" where
  "re_search pat [] = match_here pat []"
| "re_search pat (c # cs) = (match_here pat (c # cs) \<or> re_search pat cs)"

definition str_contains :: "string \<Rightarrow> string \<Rightarrow> bool option" where
  "str_contains pat s =
     (if list_ex (\<lambda>c. c \<in> set regex_operators) pat then None else Some (re_search pat s))"

text \<open>
  Lines 229 to 232: the search when a text was typed, then the exact domain when one
  was selected; an empty string is falsy in Python and skips the step.
\<close>

definition domain_search :: "string \<Rightarrow> DomainRecord list \<Rightarrow> DomainRecord list option" where
  "domain_search search_text df =
     (if list_ex (\<lambda>c. c \<in> set regex_operators) search_text then None
      else Some (filter (\<lambda>r. str_contains search_text (Domain r) = Some True) df))"

definition apply_domain_filters ::
  "DomainRecord list \<Rightarrow> string \<Rightarrow> string \<Rightarrow> DomainRecord list option" where
  "apply_domain_filters filtered_df search_text exact_domain =
     (case (if search_text \<noteq> [] then domain_search search_text filtered_df
            else Some filtered_df)
      of None \<Rightarrow> None
       | Some d \<Rightarrow>
           Some (if exact_domain \<noteq> [] then filter (\<lambda>r. Domain r = exact_domain) d else d))"

definition run_domain_analysis ::
  "DomainRecord list \<Rightarrow> filters \<Rightarrow> string \<Rightarrow> string \<Rightarrow> DomainStats list option" where
  "run_domain_analysis df f search_text exact_domain =
     map_option calculate_domain_statistics
       (apply_domain_filters (filter_dataframe df f) search_text exact_domain)"

text \<open>
  What the specification asks of the search, in its own words: the text occurs in the
  domain as a substring, letter case ignored.
\<close>

fun spec_prefix_ci :: "string \<Rightarrow> string \<Rightarrow> bool" where
  "spec_prefix_ci [] s = True"
| "spec_prefix_ci (p # ps) [] = False"
| "spec_prefix_ci (p # ps) (c # cs) = (ascii_lower p = ascii_lower c \<and> spec_prefix_ci ps cs)"

fun spec_substring_ci :: "string \<Rightarrow> string \<Rightarrow> bool" where
  "spec_substring_ci t [] = spec_prefix_ci t []"
| "spec_substring_ci t (c # cs) = (spec_prefix_ci t (c # cs) \<or> spec_substring_ci t cs)"

section \<open>Auxiliary facts\<close>

subsection \<open>Rounding to binary64\<close>

lemma round_half_even_error: "\<bar>of_int (round_half_even x) - x\<bar> \<le> 1 / 2"
proof -
  have "of_int \<lfloor>x\<rfloor> \<le> x" "x < of_int \<lfloor>x\<rfloor> + 1"
    by linarith+
  then show ?thesis
    unfolding round_half_even_def Let_def by (auto simp: abs_le_iff)
qed

lemma round_half_even_of_int [simp]: "round_half_even (of_int k) = k"
  by (simp add: round_half_even_def)

lemma ilog2_bounds:
  assumes "0 < x"
  shows "2 powi ilog2 x \<le> x" and "x < 2 powi (ilog2 x + 1)"
proof -
  have "2 powi ilog2 x \<le> x \<and> x < 2 powi (ilog2 x + 1)"
  proof (cases "1 \<le> x")
    case True
    define n where "n = nat \<lfloor>x\<rfloor>"
    define k where "k = floorlog 2 n"
    have n: "0 < n" using True by (simp add: n_def)
    have b: "2 ^ (k - 1) \<le> n" "n < 2 ^ k"
      using floorlog_bounds [of n 2] n by (simp_all add: k_def)
    have k: "0 < k" using b n by (cases k) auto
    have e: "ilog2 x = int (k - 1)"
      using True k by (simp add: ilog2_def n_def k_def)
    have nx: "of_nat n \<le> x" "x < of_nat n + 1"
      using True unfolding n_def by (simp_all add: of_nat_nat) linarith
    have "(2::rat) ^ (k - 1) \<le> of_nat n"
      using b(1) by (metis of_nat_le_iff of_nat_numeral of_nat_power)
    then have "(2::rat) ^ (k - 1) \<le> x"
      using nx(1) by (rule order_trans)
    then have lo: "2 powi ilog2 x \<le> x"
      unfolding e power_int_of_nat .
    have "n + 1 \<le> 2 ^ k" using b(2) by simp
    then have "(of_nat (n + 1) :: rat) \<le> 2 ^ k"
      by (metis of_nat_le_iff of_nat_numeral of_nat_power)
    then have "of_nat n + 1 \<le> (2::rat) ^ k" by simp
    with nx(2) have "x < 2 ^ k" by (rule less_le_trans)
    moreover have "ilog2 x + 1 = int k" using e k by simp
    ultimately have "x < 2 powi (ilog2 x + 1)"
      by (simp only: power_int_of_nat)
    with lo show ?thesis by simp
  next
    case False
    define y where "y = 1 / x"
    define n where "n = nat (\<lceil>y\<rceil> - 1)"
    define k where "k = floorlog 2 n"
    have y: "1 < y" using False assms by (simp add: y_def)
    then have c: "2 \<le> \<lceil>y\<rceil>" by linarith
    have n: "0 < n" using c by (simp add: n_def)
    have b: "2 ^ (k - 1) \<le> n" "n < 2 ^ k"
      using floorlog_bounds [of n 2] n by (simp_all add: k_def)
    have k: "0 < k" using b n by (cases k) auto
    have e: "ilog2 x = - int k"
      using False by (simp add: ilog2_def n_def k_def y_def)
    have ny: "of_nat n < y" "y \<le> of_nat n + 1"
      using c unfolding n_def by (simp_all add: of_nat_nat) linarith+
    have "n + 1 \<le> 2 ^ k" using b(2) by simp
    then have "(of_nat (n + 1) :: rat) \<le> 2 ^ k"
      by (metis of_nat_le_iff of_nat_numeral of_nat_power)
    then have "of_nat n + 1 \<le> (2::rat) ^ k" by simp
    with ny(2) have "y \<le> 2 ^ k" by (rule order_trans)
    then have "1 / 2 ^ k \<le> x"
      using assms by (simp add: y_def field_simps)
    then have lo: "2 powi ilog2 x \<le> x"
      unfolding e power_int_minus_divide power_int_of_nat .
    have "(2::rat) ^ (k - 1) \<le> of_nat n"
      using b(1) by (metis of_nat_le_iff of_nat_numeral of_nat_power)
    then have "2 ^ (k - 1) < y" using ny(1) by (rule le_less_trans)
    then have "x < 1 / 2 ^ (k - 1)"
      using assms by (simp add: y_def field_simps)
    moreover have "ilog2 x + 1 = - int (k - 1)" using e k by simp
    ultimately have "x < 2 powi (ilog2 x + 1)"
      by (simp only: power_int_minus_divide power_int_of_nat)
    with lo show ?thesis by simp
  qed
  then show "2 powi ilog2 x \<le> x" and "x < 2 powi (ilog2 x + 1)"
    by simp_all
qed

lemma powi_less_cancel:
  assumes "(2::rat) powi a < 2 powi b"
  shows "a < b"
proof (rule ccontr)
  assume "\<not> a < b"
  then have "b \<le> a" by simp
  then have "(2::rat) powi b \<le> 2 powi a"
    by (rule power_int_increasing) simp
  with assms show False by simp
qed

lemma ilog2_eqI:
  assumes "2 powi E \<le> x" "x < 2 powi (E + 1)"
  shows "ilog2 x = E"
proof -
  have pos: "0 < x"
    using assms(1) by (rule less_le_trans [rotated]) simp
  note b = ilog2_bounds [OF pos]
  have "(2::rat) powi E < 2 powi (ilog2 x + 1)"
    using assms(1) b(2) by simp
  then have 1: "E < ilog2 x + 1"
    by (rule contrapos_pp) (simp add: not_less power_int_increasing)
  have "(2::rat) powi ilog2 x < 2 powi (E + 1)"
    using assms(2) b(1) by simp
  then have 2: "ilog2 x < E + 1"
    by (rule contrapos_pp) (simp add: not_less power_int_increasing)
  from 1 2 show ?thesis by simp
qed


lemma fl_pos_eq:
  assumes "2 powi E \<le> x" "x < 2 powi (E + 1)"
  shows "fl x =
    (let e = max (E - 52) (- 1074);
         y = of_int (round_half_even (x / 2 powi e)) * 2 powi e
     in if 2 ^ 1024 \<le> y then PInf else Fin y)"
proof -
  have pos: "0 < x"
    using assms(1) by (rule less_le_trans [rotated]) simp
  have "ilog2 x = E"
    using assms by (rule ilog2_eqI)
  with pos show ?thesis
    by (simp add: fl_def Let_def)
qed

lemma fl_neg_eq:
  assumes "0 < x" "fl x = Fin y"
  shows "fl (- x) = Fin (- y)"
  using assms by (auto simp: fl_def Let_def split: if_splits)

lemma fl_error_pos:
  assumes lo: "1 / 2 ^ 1022 \<le> x" and hi: "x \<le> 2 ^ 1023"
  shows "\<exists>y. fl x = Fin y \<and> \<bar>y - x\<bar> \<le> x / 2 ^ 53"
proof -
  have pos: "0 < x"
    using lo by (rule less_le_trans [rotated]) simp
  define E where "E = ilog2 x"
  define p :: rat where "p = 2 powi (E - 52)"
  define m where "m = round_half_even (x / p)"
  note b = ilog2_bounds [OF pos, folded E_def]
  have "(2::rat) powi (- 1022) \<le> x"
    using lo by (simp add: power_int_minus_divide)
  then have "(2::rat) powi (- 1022) < 2 powi (E + 1)"
    using b(2) by (rule le_less_trans)
  then have "- 1022 < E + 1"
    by (rule powi_less_cancel)
  then have e: "max (E - 52) (- 1074) = E - 52"
    by simp
  have p: "0 < p" by (simp add: p_def)
  have pE: "p * 2 ^ 53 = 2 * 2 powi E"
  proof -
    have "(2::rat) powi (E - 52 + 53) = 2 powi (E - 52) * 2 powi 53"
      by (rule power_int_add) simp
    moreover have "E - 52 + 53 = E + 1"
      by simp
    moreover have "(2::rat) powi (E + 1) = 2 powi E * 2 powi 1"
      by (rule power_int_add) simp
    ultimately have "p * 2 powi 53 = 2 powi E * 2 powi 1"
      by (simp only: p_def)
    then show ?thesis
      by simp
  qed
  have "\<bar>of_int m - x / p\<bar> \<le> 1 / 2"
    unfolding m_def by (rule round_half_even_error)
  then have "\<bar>of_int m - x / p\<bar> * p \<le> 1 / 2 * p"
    using p by (intro mult_right_mono) simp_all
  moreover have "\<bar>of_int m - x / p\<bar> * p = \<bar>of_int m * p - x\<bar>"
  proof -
    have "\<bar>of_int m - x / p\<bar> * p = \<bar>(of_int m - x / p) * p\<bar>"
      using p by (simp add: abs_mult)
    also have "(of_int m - x / p) * p = of_int m * p - x"
      using p by (simp add: left_diff_distrib)
    finally show ?thesis .
  qed
  ultimately have err: "\<bar>of_int m * p - x\<bar> \<le> p / 2"
    by simp
  have "p / 2 * 2 ^ 53 = 2 powi E"
    using pE by simp
  then have "p / 2 * 2 ^ 53 \<le> x"
    using b(1) by simp
  then have half: "p / 2 \<le> x / 2 ^ 53"
    by (simp add: field_simps)
  define u where "u = x / 2 ^ 53"
  from err half have bound: "\<bar>of_int m * p - x\<bar> \<le> u"
    unfolding u_def by (rule order_trans)
  have "x / 2 ^ 53 \<le> 2 ^ 1023 / 2 ^ 53"
    using hi by (rule divide_right_mono) simp
  then have u: "u \<le> 2 ^ 970"
    by (simp add: u_def)
  from bound have "of_int m * p \<le> x + u"
    by (simp add: abs_le_iff)
  also have "\<dots> \<le> 2 ^ 1023 + 2 ^ 970"
    using hi u by (rule add_mono)
  also have "\<dots> < 2 ^ 1024"
    by simp
  finally have small: "\<not> 2 ^ 1024 \<le> of_int m * p"
    by simp
  have "fl x = Fin (of_int m * p)"
    using small by (simp add: fl_pos_eq [OF b] e Let_def m_def p_def)
  with bound show ?thesis
    unfolding u_def by blast
qed


lemma fl_exact_pos:
  assumes pos: "0 < x" and k: "x / 2 powi max (ilog2 x - 52) (- 1074) = of_int k"
      and small: "x < 2 ^ 1024"
  shows "fl x = Fin x"
proof -
  define e where "e = max (ilog2 x - 52) (- 1074)"
  have "of_int k * 2 powi e = x"
    using k [folded e_def] by (simp add: field_simps)
  then show ?thesis
    using small k [folded e_def]
    by (simp add: fl_pos_eq [OF ilog2_bounds [OF pos]] Let_def e_def [symmetric])
qed

lemma fl_of_int_pos:
  assumes "0 < n" "n \<le> 2 ^ 53"
  shows "fl (of_int n) = Fin (of_int n)"
proof -
  let ?x = "of_int n :: rat"
  define E where "E = ilog2 ?x"
  have pos: "0 < ?x" using assms by simp
  note b = ilog2_bounds [OF pos, folded E_def]
  have "(2::rat) powi 0 \<le> ?x" using assms by simp
  then have "(2::rat) powi 0 < 2 powi (E + 1)"
    using b(2) by (rule le_less_trans)
  then have E0: "0 \<le> E"
    using powi_less_cancel by fastforce
  have "?x \<le> of_int (2 ^ 53)"
    using assms(2) by (simp only: of_int_le_iff)
  then have "?x < 2 powi 54" by simp
  with b(1) have "(2::rat) powi E < 2 powi 54"
    by (rule le_less_trans)
  then have E54: "E < 54" by (rule powi_less_cancel)
  have small: "?x < 2 ^ 1024"
    using \<open>?x < 2 powi 54\<close> by simp
  show ?thesis
  proof (cases "E \<le> 52")
    case True
    define d where "d = nat (52 - E)"
    have e: "max (E - 52) (- 1074) = - int d"
      using True E0 by (simp add: d_def)
    have "?x / 2 powi (- int d) = of_int (n * 2 ^ d)"
      by (simp add: power_int_minus_divide)
    then show ?thesis
      using pos small by (intro fl_exact_pos) (simp_all only: E_def [symmetric] e)
  next
    case False
    with E54 have E: "E = 53" by simp
    then have "(2::rat) ^ 53 \<le> ?x" using b(1) by simp
    then have "(of_int (2 ^ 53) :: rat) \<le> of_int n" by simp
    then have "2 ^ 53 \<le> n" by (simp only: of_int_le_iff)
    with assms(2) have n: "n = 2 ^ 53" by simp
    have e: "max (E - 52) (- 1074) = 1" using E by simp
    have "?x / 2 powi 1 = of_int (2 ^ 52)"
      by (simp add: n)
    then show ?thesis
      using pos small by (intro fl_exact_pos) (simp_all only: E_def [symmetric] e)
  qed
qed

lemma fl_of_int:
  assumes "\<bar>n\<bar> \<le> 2 ^ 53"
  shows "fl (of_int n) = Fin (of_int n)"
proof -
  consider "n = 0" | "0 < n" | "n < 0" by linarith
  then show ?thesis
  proof cases
    case 1
    then show ?thesis by (simp add: fl_def)
  next
    case 2
    with assms show ?thesis by (intro fl_of_int_pos) simp_all
  next
    case 3
    with assms have "fl (of_int (- n)) = Fin (of_int (- n))"
      by (intro fl_of_int_pos) simp_all
    moreover have "(0::rat) < of_int (- n)" using 3 by simp
    ultimately have "fl (- of_int (- n)) = Fin (- of_int (- n))"
      by (rule fl_neg_eq [rotated])
    then show ?thesis by simp
  qed
qed

lemma fl_numeral [simp]:
  "numeral k \<le> (2 ^ 53 :: int) \<Longrightarrow> fl (numeral k) = Fin (numeral k)"
  using fl_of_int [of "numeral k"] by simp

lemma fl_neg_numeral [simp]:
  "numeral k \<le> (2 ^ 53 :: int) \<Longrightarrow> fl (- numeral k) = Fin (- numeral k)"
  using fl_of_int [of "- numeral k"] by simp

lemma fl_0 [simp]: "fl 0 = Fin 0"
  by (simp add: fl_def)

lemma fl_1 [simp]: "fl 1 = Fin 1"
  using fl_of_int [of 1] by simp

lemma floor_rat_numeral:
  "\<lfloor>numeral a / numeral b :: rat\<rfloor> = numeral a div numeral b"
  using floor_divide_of_int_eq [of "numeral a" "numeral b", where ?'a = rat] by simp

lemmas fl_eval = round_half_even_def Let_def floor_rat_numeral

subsection \<open>Filters, groups and sums\<close>

lemma filter_dataframe_conv:
  "filter_dataframe df f =
     filter (\<lambda>r. fge (Score r) (fst (score_range f)) \<and> fle (Score r) (snd (score_range f))
        \<and> (party f \<noteq> Some ''All'' \<longrightarrow> cell_eq (Global_Classification r) (party f))
        \<and> (sentiment f \<noteq> Some ''All'' \<longrightarrow> cell_eq (Sentiment r) (sentiment f))
        \<and> (if local_cat f \<noteq> Some ''All'' then cell_eq (Local_Category r) (local_cat f)
            else cell_eq (Local_Category r) (Some ''all''))
        \<and> (topic f \<noteq> Some ''All'' \<longrightarrow> cell_eq (Topic_Category r) (topic f))) df"
  unfolding filter_dataframe_def Let_def
  by (auto intro!: filter_cong)

lemma posts_filter_conv:
  "run_posts_analysis_filter df f =
     filter (\<lambda>r. fge (post_Score r) (fst (score_range f)) \<and> fle (post_Score r) (snd (score_range f))
        \<and> (party f \<noteq> Some ''All'' \<longrightarrow> cell_eq (post_party r) (party f))
        \<and> (sentiment f \<noteq> Some ''All'' \<longrightarrow> cell_eq (post_Sentiment_Category r) (sentiment f))
        \<and> (local_cat f \<noteq> Some ''All'' \<longrightarrow> cell_eq (post_Local_Category r) (local_cat f))
        \<and> (topic f \<noteq> Some ''All'' \<longrightarrow> cell_eq (post_Topic_Category r) (topic f))) df"
  unfolding run_posts_analysis_filter_def Let_def
  by (auto intro!: filter_cong)

lemma groupby_sum:
  fixes h :: "'r \<Rightarrow> 'b::comm_monoid_add"
  shows "sum_list (map (\<lambda>g. sum_list (map h (snd g))) (groupby key df)) = sum_list (map h df)"
proof -
  have A: "distinct ks \<Longrightarrow>
     sum_list (map (\<lambda>k. sum_list (map h (filter (\<lambda>r. key r = k) xs))) ks)
       = sum_list (map h (filter (\<lambda>r. key r \<in> set ks) xs))" for ks xs
  proof (induction xs)
    case Nil
    then show ?case by simp
  next
    case (Cons x xs)
    have "sum_list (map (\<lambda>k. sum_list (map h (filter (\<lambda>r. key r = k) (x # xs)))) ks)
        = sum_list (map (\<lambda>k. (if key x = k then h x else 0) + sum_list (map h (filter (\<lambda>r. key r = k) xs))) ks)"
      by (intro arg_cong[where f=sum_list] map_cong) auto
    also have "\<dots> = sum_list (map (\<lambda>k. if key x = k then h x else 0) ks)
         + sum_list (map (\<lambda>k. sum_list (map h (filter (\<lambda>r. key r = k) xs))) ks)"
      by (simp add: sum_list_addf)
    also have "sum_list (map (\<lambda>k. if key x = k then h x else 0) ks) = (if key x \<in> set ks then h x else 0)"
      using Cons.prems by (induction ks) auto
    finally show ?case using Cons by simp
  qed
  show ?thesis
    unfolding groupby_def map_map comp_def snd_conv
    by (subst A) auto
qed

lemma map_of_keyed:
  "map_of (map (\<lambda>k. (k, G k)) ks) d = (if d \<in> set ks then Some (G d) else None)"
  by (induction ks) auto

lemma map_of_groupby:
  "map_of (map (\<lambda>g. (fst g, F (snd g))) (groupby key xs)) d =
     (if d \<in> key ` set xs then Some (F (filter (\<lambda>r. key r = d) xs)) else None)"
  unfolding groupby_def map_map comp_def fst_conv snd_conv
  by (simp add: map_of_keyed)

lemma filter_key_empty: "d \<notin> key ` set xs \<Longrightarrow> filter (\<lambda>r. key r = d) xs = []"
  by (induction xs) auto

lemma set_groupby:
  "set (groupby key df) = (\<lambda>k. (k, filter (\<lambda>r. key r = k) df)) ` key ` set df"
  by (auto simp: groupby_def)

lemma sum_list_insort_key:
  fixes h :: "'r \<Rightarrow> 'b::comm_monoid_add"
  shows "sum_list (map h (insort_key col x xs)) = h x + sum_list (map h xs)"
  by (induction xs) (auto simp: add.left_commute)

lemma sum_list_sort_key:
  fixes h :: "'r \<Rightarrow> 'b::comm_monoid_add"
  shows "sum_list (map h (sort_key col xs)) = sum_list (map h xs)"
  by (induction xs) (auto simp: sum_list_insort_key)

lemma sum_list_sort_values_desc:
  fixes h :: "'r \<Rightarrow> 'b::comm_monoid_add"
  shows "sum_list (map h (sort_values_desc col rows)) = sum_list (map h rows)"
  unfolding sort_values_desc_def
  by (simp add: rev_map[symmetric] sum_list_sort_key sum_list_rev)

lemma sorted_sort_values_desc:
  "sorted_wrt (\<lambda>a b. col b \<le> col a) (sort_values_desc col rows)"
proof -
  have "sorted (map col (sort_key col (rev rows)))"
    by (rule sorted_sort_key)
  then have "sorted_wrt (\<lambda>a b. col a \<le> col b) (sort_key col (rev rows))"
    by (simp add: sorted_map)
  then show ?thesis
    unfolding sort_values_desc_def by (simp add: sorted_wrt_rev)
qed

lemma sum_list_filter_le:
  fixes h :: "'r \<Rightarrow> int"
  assumes "\<And>x. x \<in> set xs \<Longrightarrow> 0 \<le> h x" "\<And>x. P x \<Longrightarrow> Q x"
  shows "sum_list (map h (filter P xs)) \<le> sum_list (map h (filter Q xs))"
  using assms by (induction xs) (auto intro: add_increasing)

lemma sum_list_filter_disj:
  fixes h :: "'r \<Rightarrow> int"
  assumes "\<And>x. \<not> (P x \<and> Q x)"
  shows "sum_list (map h (filter P xs)) + sum_list (map h (filter Q xs))
        = sum_list (map h (filter (\<lambda>x. P x \<or> Q x) xs))"
  using assms by (induction xs) auto

lemma sum_list_filter_nonneg:
  fixes h :: "'r \<Rightarrow> int"
  assumes "\<And>x. x \<in> set xs \<Longrightarrow> 0 \<le> h x"
  shows "0 \<le> sum_list (map h (filter P xs))"
  using assms by (induction xs) auto

lemma sum_list_filter_le_all:
  fixes h :: "'r \<Rightarrow> int"
  assumes "\<And>x. x \<in> set xs \<Longrightarrow> 0 \<le> h x"
  shows "sum_list (map h (filter P xs)) \<le> sum_list (map h xs)"
  using assms by (induction xs) (auto intro: add_increasing)

subsection \<open>Sums of int64 columns\<close>

lemma sum_list_word_of_sint:
  fixes h :: "'r \<Rightarrow> int64"
  shows "sum_list (map h xs) = word_of_int (sum_list (map (\<lambda>x. sint (h x)) xs))"
  by (induction xs) simp_all

lemma sint_sum_list:
  fixes h :: "'r \<Rightarrow> int64"
  assumes "- (2 ^ 63) \<le> sum_list (map (\<lambda>x. sint (h x)) xs)"
      and "sum_list (map (\<lambda>x. sint (h x)) xs) < 2 ^ 63"
  shows "sint (sum_list (map h xs)) = sum_list (map (\<lambda>x. sint (h x)) xs)"
proof -
  have "sint (word_of_int (sum_list (map (\<lambda>x. sint (h x)) xs)) :: int64)
      = signed_take_bit 63 (sum_list (map (\<lambda>x. sint (h x)) xs))"
    by (simp add: sint_sbintrunc')
  also have "\<dots> = sum_list (map (\<lambda>x. sint (h x)) xs)"
    using assms by (rule signed_take_bit_int_eq_self)
  finally show ?thesis
    by (simp only: sum_list_word_of_sint [symmetric])
qed

lemma astype_int64_of_int:
  assumes "- (2 ^ 63) \<le> k" "k < 2 ^ 63"
  shows "astype_int64 (Fin (of_int k)) = word_of_int k"
  using assms by (simp add: astype_int64_def)

lemma astype_int64_float_of_int:
  fixes w :: int64
  assumes "\<bar>sint w\<bar> \<le> 2 ^ 53"
  shows "astype_int64 (float_of_int (sint w)) = w"
proof -
  have "float_of_int (sint w) = Fin (of_int (sint w))"
    unfolding float_of_int_def using assms by (rule fl_of_int)
  moreover have "- (2 ^ 63) \<le> sint w" "sint w < 2 ^ 63"
    using assms by simp_all
  ultimately have "astype_int64 (float_of_int (sint w)) = word_of_int (sint w)"
    by (simp only: astype_int64_of_int)
  then show ?thesis
    by simp
qed

lemma astype_int64_0: "astype_int64 (Fin 0) = 0"
  by (simp add: astype_int64_def)

subsection \<open>The rows of the domain statistics\<close>

lemma map_of_party_counts:
  "map_of (party_counts names df) d =
     (if d \<in> Domain ` set (filter (\<lambda>r. isin (Global_Classification r) names) df)
      then Some (sum_list (map Combination_Total_Count
             (filter (\<lambda>r. Domain r = d \<and> isin (Global_Classification r) names) df)))
      else None)"
proof -
  have eq: "filter (\<lambda>r. Domain r = d) (filter (\<lambda>r. isin (Global_Classification r) names) df)
      = filter (\<lambda>r. Domain r = d \<and> isin (Global_Classification r) names) df"
    by (simp add: conj_commute)
  have "map_of (party_counts names df) d =
     (if d \<in> Domain ` set (filter (\<lambda>r. isin (Global_Classification r) names) df)
      then Some (sum_list (map Combination_Total_Count
             (filter (\<lambda>r. Domain r = d)
                (filter (\<lambda>r. isin (Global_Classification r) names) df))))
      else None)"
    unfolding party_counts_def by (rule map_of_groupby)
  then show ?thesis
    unfolding eq .
qed

lemma party_rows_empty:
  assumes "d \<notin> Domain ` set (filter (\<lambda>r. isin (Global_Classification r) names) df)"
  shows "filter (\<lambda>r. Domain r = d \<and> isin (Global_Classification r) names) df = []"
  using assms by (auto simp: filter_empty_conv)

lemma map_fillna0_party_counts:
  assumes "\<bar>sint (sum_list (map Combination_Total_Count
             (filter (\<lambda>r. Domain r = d \<and> isin (Global_Classification r) names) df)))\<bar>
           \<le> 2 ^ 53"
  shows "map_fillna0 (party_counts names df) domains d =
     sum_list (map Combination_Total_Count
       (filter (\<lambda>r. Domain r = d \<and> isin (Global_Classification r) names) df))"
proof (cases "d \<in> Domain ` set (filter (\<lambda>r. isin (Global_Classification r) names) df)")
  case True
  then have "map_of (party_counts names df) d =
      Some (sum_list (map Combination_Total_Count
             (filter (\<lambda>r. Domain r = d \<and> isin (Global_Classification r) names) df)))"
    by (simp only: map_of_party_counts if_True)
  with assms show ?thesis
    by (simp add: map_fillna0_def astype_int64_float_of_int)
next
  case False
  then have "map_of (party_counts names df) d = None"
    by (simp only: map_of_party_counts if_False)
  moreover have "filter (\<lambda>r. Domain r = d \<and> isin (Global_Classification r) names) df = []"
    using False by (rule party_rows_empty)
  ultimately show ?thesis
    by (simp add: map_fillna0_def astype_int64_0)
qed

lemma map_fillna0_no_rows:
  assumes "\<forall>r \<in> set df. Domain r = d \<longrightarrow> \<not> isin (Global_Classification r) names"
  shows "map_fillna0 (party_counts names df) domains d = 0"
proof -
  from assms have "filter (\<lambda>r. Domain r = d \<and> isin (Global_Classification r) names) df = []"
    by (induction df) auto
  then show ?thesis
    using map_fillna0_party_counts [of d names df domains] by simp
qed

lemma set_stats_df: "set (stats_df df) = agg_domain ` set (groupby Domain df)"
  by (simp add: stats_df_def sort_values_desc_def)

lemma stats_row:
  assumes "s \<in> set (calculate_domain_statistics df)"
  shows "stat_Domain s \<in> Domain ` set df
    \<and> Total_Articles s =
        sum_list (map Combination_Total_Count (filter (\<lambda>r. Domain r = stat_Domain s) df))
    \<and> Democrat_Articles s =
        map_fillna0 (dem_counts df) (map fst (stats_df df)) (stat_Domain s)
    \<and> Republican_Articles s =
        map_fillna0 (rep_counts df) (map fst (stats_df df)) (stat_Domain s)"
proof -
  from assms obtain t where t: "t \<in> set (stats_df df)"
    and s: "s = (case t of (d, tot, avg, mn, mx, p) \<Rightarrow>
            \<lparr>stat_Domain = d, Total_Articles = tot,
             Democrat_Articles = map_fillna0 (dem_counts df) (map fst (stats_df df)) d,
             Republican_Articles = map_fillna0 (rep_counts df) (map fst (stats_df df)) d,
             Average_Score = avg, Min_Score = mn, Max_Score = mx, Party = p\<rparr>)"
    unfolding calculate_domain_statistics_def Let_def by auto
  from t obtain d where d: "d \<in> Domain ` set df"
    and t': "t = agg_domain (d, filter (\<lambda>r. Domain r = d) df)"
    unfolding set_stats_df set_groupby by auto
  show ?thesis
    unfolding s t' agg_domain_def
    using d by simp
qed

lemma Total_Articles_calc:
  "map Total_Articles (calculate_domain_statistics df) = map (\<lambda>s. fst (snd s)) (stats_df df)"
  unfolding calculate_domain_statistics_def Let_def by (simp add: case_prod_beta)

lemma sint_filter_sum:
  assumes nonneg: "\<forall>r \<in> set df. 0 \<le> sint (Combination_Total_Count r)"
      and bound: "sum_list (map (\<lambda>r. sint (Combination_Total_Count r)) df) < 2 ^ 63"
  shows "sint (sum_list (map Combination_Total_Count (filter P df)))
           = sum_list (map (\<lambda>r. sint (Combination_Total_Count r)) (filter P df))"
proof -
  let ?h = "\<lambda>r. sint (Combination_Total_Count r)"
  have lo: "0 \<le> sum_list (map ?h (filter P df))"
    using nonneg by (intro sum_list_filter_nonneg) simp
  have "sum_list (map ?h (filter P df)) \<le> sum_list (map ?h df)"
    using nonneg by (intro sum_list_filter_le_all) simp
  with bound have hi: "sum_list (map ?h (filter P df)) < 2 ^ 63"
    by simp
  from lo have "- (2 ^ 63) \<le> sum_list (map ?h (filter P df))"
    by simp
  then show ?thesis
    using hi by (rule sint_sum_list)
qed

lemmas stats_eval = calculate_domain_statistics_def stats_df_def groupby_def agg_domain_def
  sort_values_desc_def agg_mean_def agg_min_def agg_max_def kahan_step_def fsub_def fmin_def
  fmax_def round_decimals_def float_of_int_def dem_counts_def rep_counts_def party_counts_def
  isin_def map_fillna0_def astype_int64_def Let_def round_half_even_def

subsection \<open>The sunburst table and the search\<close>

lemma sum_list_ones: "sum_list (map (\<lambda>_. 1::int) xs) = int (length xs)"
  by (induction xs) auto

lemma sunburst_counts_sum:
  "sum_list (map snd (sunburst_counts filtered_posts))
     = int (length (List.map_filter group_key filtered_posts))"
proof -
  have "sum_list (map snd (sunburst_counts filtered_posts))
      = sum_list (map (\<lambda>g. sum_list (map (\<lambda>_. 1::int) (snd g)))
          (groupby id (List.map_filter group_key filtered_posts)))"
    unfolding sunburst_counts_def by (simp add: comp_def sum_list_ones)
  also have "\<dots> = sum_list (map (\<lambda>_. 1::int) (List.map_filter group_key filtered_posts))"
    by (rule groupby_sum)
  finally show ?thesis by (simp add: sum_list_ones)
qed

lemma length_map_filter_conv:
  "length (List.map_filter g xs) = length (filter (\<lambda>x. g x \<noteq> None) xs)"
  by (induction xs) (auto split: option.splits)

lemma group_key_None_iff:
  "group_key r \<noteq> None \<longleftrightarrow>
     post_Topic_Category r \<noteq> None \<and> post_Local_Category r \<noteq> None
     \<and> post_Sentiment_Category r \<noteq> None \<and> post_party r \<noteq> None"
  by (auto simp: group_key_def split: option.splits)

lemma count_sunburst_data:
  "map count (sunburst_data posts_df filtered_posts) = map snd (sunburst_counts filtered_posts)"
  unfolding sunburst_data_def Let_def by (simp add: case_prod_beta)

lemma sum_list_close:
  fixes u v :: "'a \<Rightarrow> rat"
  assumes "\<And>x. x \<in> set xs \<Longrightarrow> \<bar>u x - v x\<bar> \<le> e"
  shows "\<bar>sum_list (map u xs) - sum_list (map v xs)\<bar> \<le> of_nat (length xs) * e"
  using assms
proof (induction xs)
  case Nil
  then show ?case by simp
next
  case (Cons x xs)
  have "\<bar>u x - v x\<bar> \<le> e" using Cons.prems by simp
  moreover have "\<bar>sum_list (map u xs) - sum_list (map v xs)\<bar> \<le> of_nat (length xs) * e"
    using Cons by simp
  ultimately show ?case
    by (simp add: algebra_simps abs_le_iff)
qed

lemma sum_list_scaled:
  fixes T :: rat
  shows "sum_list (map (\<lambda>c. of_int c / T * 100) cs) = of_int (sum_list cs) / T * 100"
  by (induction cs) (auto simp: add_divide_distrib distrib_right)

lemma percentage_filtered_sunburst_data:
  "map percentage_filtered (sunburst_data posts_df filtered_posts)
     = map (\<lambda>kc. percentage (snd kc) (int (length filtered_posts))) (sunburst_counts filtered_posts)"
  unfolding sunburst_data_def Let_def by (simp add: case_prod_beta)

lemma sunburst_row:
  assumes "g \<in> set (sunburst_data posts_df filtered_posts)"
  shows "percentage_filtered g = percentage (count g) (int (length filtered_posts))"
  using assms unfolding sunburst_data_def Let_def by auto

lemma sb_key_sunburst_data:
  "map sb_key (sunburst_data posts_df filtered_posts) = map fst (sunburst_counts filtered_posts)"
  unfolding sunburst_data_def Let_def by (simp add: case_prod_beta)

lemma map_filter_group_key_drop_null_local:
  "List.map_filter group_key (filter (\<lambda>r. post_Local_Category r \<noteq> None) xs)
     = List.map_filter group_key xs"
  by (induction xs) (auto simp: group_key_def split: option.splits)

lemma sunburst_counts_drop_null_local:
  "sunburst_counts (filter (\<lambda>r. post_Local_Category r \<noteq> None) filtered_posts)
     = sunburst_counts filtered_posts"
  unfolding sunburst_counts_def by (simp only: map_filter_group_key_drop_null_local)

lemma sunburst_data_empty: "sunburst_data posts_df [] = []"
  by (simp add: sunburst_data_def sunburst_counts_def groupby_def)

lemma match_here_literal:
  "CHR ''.'' \<notin> set p \<Longrightarrow> match_here p t = spec_prefix_ci p t"
  by (induction p t rule: match_here.induct) auto

lemma re_search_literal:
  "CHR ''.'' \<notin> set pat \<Longrightarrow> re_search pat s = spec_substring_ci pat s"
  by (induction s) (auto simp: match_here_literal)

subsection \<open>The error of a percentage\<close>

lemma fl_step:
  assumes lo: "1 / 2 ^ 60 \<le> x" and hi: "x \<le> B" and B: "B \<le> 8000"
  shows "\<exists>y. fl x = Fin y \<and> \<bar>y - x\<bar> \<le> B / 2 ^ 53 \<and> x / 2 \<le> y \<and> y \<le> 2 * B"
proof -
  have "(1::rat) / 2 ^ 1022 \<le> 1 / 2 ^ 60"
    by simp
  then have lo': "1 / 2 ^ 1022 \<le> x"
    using lo by (rule order_trans)
  have "(8000::rat) \<le> 2 ^ 1023"
    by simp
  with hi B have hi': "x \<le> 2 ^ 1023"
    by linarith
  from fl_error_pos [OF lo' hi'] obtain y where y: "fl x = Fin y" and e: "\<bar>y - x\<bar> \<le> x / 2 ^ 53"
    by blast
  have pos: "0 < x"
    using lo by (rule less_le_trans [rotated]) simp
  define v where "v = x / 2 ^ 53"
  define w where "w = B / 2 ^ 53"
  have v: "0 \<le> v" "v \<le> x / 2" "v \<le> w"
    using pos hi by (simp_all add: v_def w_def field_simps)
  from e have "\<bar>y - x\<bar> \<le> v"
    by (simp only: v_def)
  then have "y - x \<le> v" "x - y \<le> v"
    by linarith+
  with v hi have "\<bar>y - x\<bar> \<le> w \<and> x / 2 \<le> y \<and> y \<le> 2 * B"
    by (auto simp: abs_le_iff)
  with y show ?thesis
    unfolding w_def by blast
qed

lemma percentage_error:
  assumes c: "1 \<le> c" "c \<le> n" and n: "n \<le> 2 ^ 53"
  shows "\<exists>p. percentage c n = Fin p
           \<and> \<bar>p - of_int c / of_int n * 100\<bar> \<le> 1 / 20 + 1 / 10 ^ 12"
proof -
  define u :: rat where "u = 1 / 2 ^ 53"
  define x0 :: rat where "x0 = of_int c / of_int n"
  have u: "0 < u" "1500 * u \<le> 1 / 10 ^ 12"
    by (simp_all add: u_def)
  have npos: "(0::rat) < of_int n"
    using c by simp
  have "(of_int n :: rat) \<le> of_int (2 ^ 53)"
    using n by (simp only: of_int_le_iff)
  then have n53: "(of_int n :: rat) \<le> 2 ^ 53"
    by simp
  have "(1::rat) \<le> of_int c" "(of_int c :: rat) \<le> of_int n"
    using c by simp_all
  then have x0: "u \<le> x0" "x0 \<le> 1"
    using npos n53 by (simp_all add: x0_def u_def field_simps)
  have small: "(1::rat) / 2 ^ 60 \<le> u / 64"
    by (simp add: u_def)
  have cf: "float_of_int c = Fin (of_int c)" and nf: "float_of_int n = Fin (of_int n)"
    unfolding float_of_int_def using c n by (intro fl_of_int; simp)+
  have div: "true_divide c n = fl x0"
    using npos by (simp add: true_divide_def cf nf x0_def)
  \<comment> \<open>the quotient\<close>
  have "1 / 2 ^ 60 \<le> x0" using small x0 u by linarith
  from fl_step [OF this x0(2)] obtain q1 where q1: "fl x0 = Fin q1"
    and e0: "\<bar>q1 - x0\<bar> \<le> 1 / 2 ^ 53" and q1b: "x0 / 2 \<le> q1" "q1 \<le> 2 * 1"
    by auto
  \<comment> \<open>times one hundred\<close>
  have "1 / 2 ^ 60 \<le> q1 * 100" "q1 * 100 \<le> 200"
    using small x0 u q1b by linarith+
  from fl_step [OF this] obtain p1 where p1: "fl (q1 * 100) = Fin p1"
    and e1: "\<bar>p1 - q1 * 100\<bar> \<le> 200 / 2 ^ 53" and p1b: "q1 * 100 / 2 \<le> p1" "p1 \<le> 2 * 200"
    by auto
  \<comment> \<open>times ten\<close>
  have "1 / 2 ^ 60 \<le> p1 * 10" "p1 * 10 \<le> 4000"
    using small x0 u q1b p1b by linarith+
  from fl_step [OF this] obtain s where s: "fl (p1 * 10) = Fin s"
    and e2: "\<bar>s - p1 * 10\<bar> \<le> 4000 / 2 ^ 53" and sb: "p1 * 10 / 2 \<le> s" "s \<le> 2 * 4000"
    by auto
  \<comment> \<open>to the nearest integer\<close>
  define r where "r = round_half_even s"
  have e3: "\<bar>of_int r - s\<bar> \<le> 1 / 2"
    unfolding r_def by (rule round_half_even_error)
  have spos: "0 < s"
    using small x0 u q1b p1b sb by linarith
  from e3 have "of_int r - s \<le> 1 / 2" "s - of_int r \<le> 1 / 2"
    by linarith+
  with spos sb have "(- 1 :: rat) < of_int r" "(of_int r :: rat) < 8001"
    by linarith+
  then have "(of_int (- 1) :: rat) < of_int r" "(of_int r :: rat) < of_int 8001"
    by simp_all
  then have "- 1 < r" "r < 8001"
    by (simp_all only: of_int_less_iff)
  then have rb: "0 \<le> r" "r \<le> 8000"
    by linarith+
  \<comment> \<open>divided by ten\<close>
  have "\<exists>p. fl (of_int r / 10) = Fin p \<and> \<bar>p - of_int r / 10\<bar> \<le> 800 / 2 ^ 53"
  proof (cases "r = 0")
    case True
    then show ?thesis by simp
  next
    case False
    with rb have "1 \<le> r" by simp
    then have "(of_int 1 :: rat) \<le> of_int r"
      by (simp only: of_int_le_iff)
    moreover have "(of_int r :: rat) \<le> of_int 8000"
      using rb by (simp only: of_int_le_iff)
    ultimately have "(1::rat) / 2 ^ 60 \<le> of_int r / 10" "(of_int r :: rat) / 10 \<le> 800"
      by simp_all
    from fl_step [OF this] show ?thesis
      by auto
  qed
  then obtain p where p: "fl (of_int r / 10) = Fin p"
    and e4: "\<bar>p - of_int r / 10\<bar> \<le> 800 / 2 ^ 53"
    by blast
  have "percentage c n = Fin p"
    by (simp add: percentage_def div q1 p1 round_decimals_def s r_def [symmetric] p)
  moreover have "\<bar>p - x0 * 100\<bar> \<le> 1 / 20 + 1 / 10 ^ 12"
  proof -
    have e0': "\<bar>q1 - x0\<bar> \<le> u" and e1': "\<bar>p1 - q1 * 100\<bar> \<le> 200 * u"
      and e2': "\<bar>s - p1 * 10\<bar> \<le> 4000 * u" and e4': "\<bar>p - of_int r / 10\<bar> \<le> 800 * u"
      using e0 e1 e2 e4 by (simp_all add: u_def)
    define R :: rat where "R = of_int r"
    have "q1 - x0 \<le> u" "x0 - q1 \<le> u"
      "p1 - q1 * 100 \<le> 200 * u" "q1 * 100 - p1 \<le> 200 * u"
      "s - p1 * 10 \<le> 4000 * u" "p1 * 10 - s \<le> 4000 * u"
      "R - s \<le> 1 / 2" "s - R \<le> 1 / 2"
      "p - R / 10 \<le> 800 * u" "R / 10 - p \<le> 800 * u"
      using e0' e1' e2' e3 e4' unfolding R_def by linarith+
    then have "p - x0 * 100 \<le> 1 / 20 + 1500 * u" "x0 * 100 - p \<le> 1 / 20 + 1500 * u"
      by linarith+
    then have "\<bar>p - x0 * 100\<bar> \<le> 1 / 20 + 1500 * u"
      by (simp add: abs_le_iff)
    with u(2) show ?thesis
      by linarith
  qed
  ultimately show ?thesis
    unfolding x0_def by blast
qed

lemma percentage_zero_total:
  "percentage c 0 = PInf \<or> percentage c 0 = NInf \<or> percentage c 0 = NaN"
proof (cases "float_of_int c")
  case (Fin a)
  then show ?thesis
    by (simp add: percentage_def true_divide_def float_of_int_def round_decimals_def)
next
  case PInf
  then show ?thesis
    by (simp add: percentage_def true_divide_def float_of_int_def round_decimals_def)
next
  case NInf
  then show ?thesis
    by (simp add: percentage_def true_divide_def float_of_int_def round_decimals_def)
next
  case NaN
  then show ?thesis
    by (simp add: percentage_def true_divide_def float_of_int_def round_decimals_def)
qed

lemma sunburst_count_bounds:
  assumes "g \<in> set (sunburst_data posts_df filtered_posts)"
  shows "1 \<le> count g" and "count g \<le> int (length filtered_posts)"
proof -
  let ?keys = "List.map_filter group_key filtered_posts"
  from assms obtain k where k: "k \<in> set ?keys"
    and c: "count g = int (length (filter (\<lambda>x. x = k) ?keys))"
    unfolding sunburst_data_def sunburst_counts_def Let_def
    by (auto simp: set_groupby)
  from k have "filter (\<lambda>x. x = k) ?keys \<noteq> []"
    by (simp add: filter_empty_conv)
  then show "1 \<le> count g"
    unfolding c by (cases "filter (\<lambda>x. x = k) ?keys") simp_all
  have "length (filter (\<lambda>x. x = k) ?keys) \<le> length ?keys"
    by (rule length_filter_le)
  also have "\<dots> \<le> length filtered_posts"
    by (simp add: length_map_filter_conv)
  finally show "count g \<le> int (length filtered_posts)"
    unfolding c by simp
qed

section \<open>The filter of the domain page\<close>

text \<open>
  Claim C8. Filtering is idempotent: filtering the result of \<^verbatim>\<open>filter_dataframe\<close> again
  with the same criteria gives the same table.
\<close>

theorem filter_dataframe_idempotent:
  "filter_dataframe (filter_dataframe df f) f = filter_dataframe df f"
  by (simp add: filter_dataframe_conv)

theorem filter_dataframe_idempotent_witness:
  "filter_dataframe
     (filter_dataframe
        [\<lparr>Domain = ''a.com'', Global_Classification = Some ''Democrat'', Sentiment = Some ''pos'',
          Local_Category = Some ''all'', Topic_Category = Some ''econ'', Score = Fin 5,
          Combination_Total_Count = 10\<rparr>,
         \<lparr>Domain = ''b.org'', Global_Classification = Some ''Republican'', Sentiment = Some ''neg'',
          Local_Category = Some ''local'', Topic_Category = Some ''econ'', Score = Fin 3,
          Combination_Total_Count = 4\<rparr>]
        \<lparr>score_range = (Fin 0, Fin 10), party = Some ''All'', sentiment = Some ''All'',
         local_cat = Some ''All'', topic = Some ''All''\<rparr>)
     \<lparr>score_range = (Fin 0, Fin 10), party = Some ''All'', sentiment = Some ''All'',
      local_cat = Some ''All'', topic = Some ''All''\<rparr>
   = [\<lparr>Domain = ''a.com'', Global_Classification = Some ''Democrat'', Sentiment = Some ''pos'',
       Local_Category = Some ''all'', Topic_Category = Some ''econ'', Score = Fin 5,
       Combination_Total_Count = 10\<rparr>]"
  using filter_dataframe_idempotent
    [of "[\<lparr>Domain = ''a.com'', Global_Classification = Some ''Democrat'', Sentiment = Some ''pos'',
          Local_Category = Some ''all'', Topic_Category = Some ''econ'', Score = Fin 5,
          Combination_Total_Count = 10\<rparr>,
         \<lparr>Domain = ''b.org'', Global_Classification = Some ''Republican'', Sentiment = Some ''neg'',
          Local_Category = Some ''local'', Topic_Category = Some ''econ'', Score = Fin 3,
          Combination_Total_Count = 4\<rparr>]"
        "\<lparr>score_range = (Fin 0, Fin 10), party = Some ''All'', sentiment = Some ''All'',
         local_cat = Some ''All'', topic = Some ''All''\<rparr>"]
  by (simp add: filter_dataframe_def fge_def cell_eq_def)

text \<open>
  Claim C2. Every row that \<^verbatim>\<open>filter_dataframe\<close> keeps has its score inside the closed
  range \<open>[lo, hi]\<close> of the criteria, and for each of the four selectors that is not
  \<^verbatim>\<open>"All"\<close> the row's field is equal to the selected value: the very same string, so that
  letter case counts.
\<close>

theorem filter_dataframe_rows_satisfy_criteria:
  assumes "r \<in> set (filter_dataframe df f)"
  shows "fle (fst (score_range f)) (Score r) \<and> fle (Score r) (snd (score_range f))
       \<and> (party f \<noteq> Some ''All'' \<longrightarrow> Global_Classification r = party f)
       \<and> (sentiment f \<noteq> Some ''All'' \<longrightarrow> Sentiment r = sentiment f)
       \<and> (local_cat f \<noteq> Some ''All'' \<longrightarrow> Local_Category r = local_cat f)
       \<and> (topic f \<noteq> Some ''All'' \<longrightarrow> Topic_Category r = topic f)"
  using assms by (auto simp: filter_dataframe_conv fge_def cell_eq_def)

theorem filter_dataframe_rows_satisfy_criteria_witness:
  "filter_dataframe
     [\<lparr>Domain = ''a.com'', Global_Classification = Some ''Democrat'', Sentiment = Some ''pos'',
       Local_Category = Some ''local'', Topic_Category = Some ''econ'', Score = Fin 5,
       Combination_Total_Count = 10\<rparr>,
      \<lparr>Domain = ''b.org'', Global_Classification = Some ''democrat'', Sentiment = Some ''pos'',
       Local_Category = Some ''local'', Topic_Category = Some ''econ'', Score = Fin 5,
       Combination_Total_Count = 4\<rparr>,
      \<lparr>Domain = ''c.net'', Global_Classification = Some ''Democrat'', Sentiment = Some ''pos'',
       Local_Category = Some ''local'', Topic_Category = Some ''econ'', Score = Fin 9,
       Combination_Total_Count = 7\<rparr>]
     \<lparr>score_range = (Fin 1, Fin 6), party = Some ''Democrat'', sentiment = Some ''pos'',
      local_cat = Some ''local'', topic = Some ''econ''\<rparr>
   = [\<lparr>Domain = ''a.com'', Global_Classification = Some ''Democrat'', Sentiment = Some ''pos'',
       Local_Category = Some ''local'', Topic_Category = Some ''econ'', Score = Fin 5,
       Combination_Total_Count = 10\<rparr>]
   \<and> fle (Fin 1) (Fin 5) \<and> fle (Fin 5) (Fin 6)"
proof -
  let ?a = "\<lparr>Domain = ''a.com'', Global_Classification = Some ''Democrat'', Sentiment = Some ''pos'',
       Local_Category = Some ''local'', Topic_Category = Some ''econ'', Score = Fin 5,
       Combination_Total_Count = 10\<rparr>"
  let ?df = "[?a,
      \<lparr>Domain = ''b.org'', Global_Classification = Some ''democrat'', Sentiment = Some ''pos'',
       Local_Category = Some ''local'', Topic_Category = Some ''econ'', Score = Fin 5,
       Combination_Total_Count = 4\<rparr>,
      \<lparr>Domain = ''c.net'', Global_Classification = Some ''Democrat'', Sentiment = Some ''pos'',
       Local_Category = Some ''local'', Topic_Category = Some ''econ'', Score = Fin 9,
       Combination_Total_Count = 7\<rparr>]"
  let ?f = "\<lparr>score_range = (Fin 1, Fin 6), party = Some ''Democrat'', sentiment = Some ''pos'',
      local_cat = Some ''local'', topic = Some ''econ''\<rparr>"
  have res: "filter_dataframe ?df ?f = [?a]"
    by (simp add: filter_dataframe_def fge_def cell_eq_def)
  then have mem: "?a \<in> set (filter_dataframe ?df ?f)"
    by simp
  from filter_dataframe_rows_satisfy_criteria [OF mem] res show ?thesis
    by simp
qed

text \<open>
  Claim C1. The two pages treat the \<^verbatim>\<open>"All"\<close> choice of the local category differently.
  On the domain page (\<^verbatim>\<open>filter_dataframe\<close>) the choice \<^verbatim>\<open>"All"\<close> keeps only rows whose
  \<^verbatim>\<open>Local_Category\<close> is \<^verbatim>\<open>"all"\<close>; a specific value \<open>v\<close> keeps only rows whose
  \<^verbatim>\<open>Local_Category\<close> is \<open>v\<close>, so the \<^verbatim>\<open>"all"\<close> rows are left out (for each value that the
  select box offers, \<^verbatim>\<open>"local"\<close> and \<^verbatim>\<open>"non_local"\<close>, and for any other value that is not
  \<^verbatim>\<open>"all"\<close> itself). On the posts page the choice \<^verbatim>\<open>"All"\<close> puts no condition on
  \<^verbatim>\<open>Local_Category\<close>: the rows kept are exactly those that pass the score range and the
  three other selectors.
\<close>

theorem local_cat_selector_asymmetry:
  "(local_cat f = Some ''All'' \<longrightarrow>
      (\<forall>r \<in> set (filter_dataframe df f). Local_Category r = Some ''all''))
   \<and> (local_cat f = Some v \<and> v \<noteq> ''All'' \<longrightarrow>
      (\<forall>r \<in> set (filter_dataframe df f). Local_Category r = Some v))
   \<and> (local_cat f = Some v \<and> v \<noteq> ''All'' \<and> v \<noteq> ''all'' \<longrightarrow>
      (\<forall>r \<in> set (filter_dataframe df f). Local_Category r \<noteq> Some ''all''))
   \<and> (local_cat f = Some ''All'' \<longrightarrow>
      run_posts_analysis_filter posts_df f =
        filter (\<lambda>r. fge (post_Score r) (fst (score_range f))
                  \<and> fle (post_Score r) (snd (score_range f))
                  \<and> (party f \<noteq> Some ''All'' \<longrightarrow> cell_eq (post_party r) (party f))
                  \<and> (sentiment f \<noteq> Some ''All'' \<longrightarrow>
                        cell_eq (post_Sentiment_Category r) (sentiment f))
                  \<and> (topic f \<noteq> Some ''All'' \<longrightarrow> cell_eq (post_Topic_Category r) (topic f)))
          posts_df)"
proof (intro conjI impI ballI)
  fix r assume "local_cat f = Some ''All''" "r \<in> set (filter_dataframe df f)"
  then show "Local_Category r = Some ''all''"
    by (simp add: filter_dataframe_conv cell_eq_def)
next
  fix r assume "local_cat f = Some v \<and> v \<noteq> ''All''" "r \<in> set (filter_dataframe df f)"
  then show "Local_Category r = Some v"
    by (simp add: filter_dataframe_conv cell_eq_def)
next
  fix r
  assume "local_cat f = Some v \<and> v \<noteq> ''All'' \<and> v \<noteq> ''all''"
    "r \<in> set (filter_dataframe df f)"
  then show "Local_Category r \<noteq> Some ''all''"
    by (simp add: filter_dataframe_conv cell_eq_def)
next
  assume "local_cat f = Some ''All''"
  then show "run_posts_analysis_filter posts_df f =
        filter (\<lambda>r. fge (post_Score r) (fst (score_range f))
                  \<and> fle (post_Score r) (snd (score_range f))
                  \<and> (party f \<noteq> Some ''All'' \<longrightarrow> cell_eq (post_party r) (party f))
                  \<and> (sentiment f \<noteq> Some ''All'' \<longrightarrow>
                        cell_eq (post_Sentiment_Category r) (sentiment f))
                  \<and> (topic f \<noteq> Some ''All'' \<longrightarrow> cell_eq (post_Topic_Category r) (topic f)))
          posts_df"
    by (simp add: posts_filter_conv)
qed

theorem local_cat_selector_asymmetry_witness:
  "local_cat \<lparr>score_range = (Fin 0, Fin 10), party = Some ''All'', sentiment = Some ''All'',
        local_cat = Some ''All'', topic = Some ''All''\<rparr> = Some ''All''
   \<and> filter_dataframe
       [\<lparr>Domain = ''a.com'', Global_Classification = Some ''Democrat'', Sentiment = Some ''pos'',
         Local_Category = Some ''all'', Topic_Category = Some ''econ'', Score = Fin 5,
         Combination_Total_Count = 10\<rparr>,
        \<lparr>Domain = ''a.com'', Global_Classification = Some ''Democrat'', Sentiment = Some ''pos'',
         Local_Category = Some ''local'', Topic_Category = Some ''econ'', Score = Fin 5,
         Combination_Total_Count = 6\<rparr>]
       \<lparr>score_range = (Fin 0, Fin 10), party = Some ''All'', sentiment = Some ''All'',
        local_cat = Some ''All'', topic = Some ''All''\<rparr>
     = [\<lparr>Domain = ''a.com'', Global_Classification = Some ''Democrat'', Sentiment = Some ''pos'',
         Local_Category = Some ''all'', Topic_Category = Some ''econ'', Score = Fin 5,
         Combination_Total_Count = 10\<rparr>]
   \<and> Local_Category
       \<lparr>Domain = ''a.com'', Global_Classification = Some ''Democrat'', Sentiment = Some ''pos'',
         Local_Category = Some ''all'', Topic_Category = Some ''econ'', Score = Fin 5,
         Combination_Total_Count = 10\<rparr>
     = Some ''all''
   \<and> local_cat \<lparr>score_range = (Fin 0, Fin 10), party = Some ''All'', sentiment = Some ''All'',
        local_cat = Some ''local'', topic = Some ''All''\<rparr> = Some ''local''
   \<and> filter_dataframe
       [\<lparr>Domain = ''a.com'', Global_Classification = Some ''Democrat'', Sentiment = Some ''pos'',
         Local_Category = Some ''all'', Topic_Category = Some ''econ'', Score = Fin 5,
         Combination_Total_Count = 10\<rparr>,
        \<lparr>Domain = ''a.com'', Global_Classification = Some ''Democrat'', Sentiment = Some ''pos'',
         Local_Category = Some ''local'', Topic_Category = Some ''econ'', Score = Fin 5,
         Combination_Total_Count = 6\<rparr>]
       \<lparr>score_range = (Fin 0, Fin 10), party = Some ''All'', sentiment = Some ''All'',
        local_cat = Some ''local'', topic = Some ''All''\<rparr>
     = [\<lparr>Domain = ''a.com'', Global_Classification = Some ''Democrat'', Sentiment = Some ''pos'',
         Local_Category = Some ''local'', Topic_Category = Some ''econ'', Score = Fin 5,
         Combination_Total_Count = 6\<rparr>]
   \<and> Local_Category
       \<lparr>Domain = ''a.com'', Global_Classification = Some ''Democrat'', Sentiment = Some ''pos'',
         Local_Category = Some ''local'', Topic_Category = Some ''econ'', Score = Fin 5,
         Combination_Total_Count = 6\<rparr>
     \<noteq> Some ''all''
   \<and> run_posts_analysis_filter
       [\<lparr>post_party = Some ''dem'', post_Sentiment_Category = Some ''pos'',
         post_Local_Category = Some ''local'', post_Topic_Category = Some ''econ'',
         post_Score = Fin 5, post_ave_sentiment = Fin 0\<rparr>,
        \<lparr>post_party = Some ''rep'', post_Sentiment_Category = Some ''neg'',
         post_Local_Category = None, post_Topic_Category = Some ''econ'',
         post_Score = Fin 3, post_ave_sentiment = Fin 0\<rparr>]
       \<lparr>score_range = (Fin 0, Fin 10), party = Some ''All'', sentiment = Some ''All'',
        local_cat = Some ''All'', topic = Some ''All''\<rparr>
     = [\<lparr>post_party = Some ''dem'', post_Sentiment_Category = Some ''pos'',
         post_Local_Category = Some ''local'', post_Topic_Category = Some ''econ'',
         post_Score = Fin 5, post_ave_sentiment = Fin 0\<rparr>,
        \<lparr>post_party = Some ''rep'', post_Sentiment_Category = Some ''neg'',
         post_Local_Category = None, post_Topic_Category = Some ''econ'',
         post_Score = Fin 3, post_ave_sentiment = Fin 0\<rparr>]"
proof -
  let ?df = "[\<lparr>Domain = ''a.com'', Global_Classification = Some ''Democrat'', Sentiment = Some ''pos'',
         Local_Category = Some ''all'', Topic_Category = Some ''econ'', Score = Fin 5,
         Combination_Total_Count = 10\<rparr>,
        \<lparr>Domain = ''a.com'', Global_Classification = Some ''Democrat'', Sentiment = Some ''pos'',
         Local_Category = Some ''local'', Topic_Category = Some ''econ'', Score = Fin 5,
         Combination_Total_Count = 6\<rparr>]"
  let ?r0 = "\<lparr>Domain = ''a.com'', Global_Classification = Some ''Democrat'', Sentiment = Some ''pos'',
         Local_Category = Some ''all'', Topic_Category = Some ''econ'', Score = Fin 5,
         Combination_Total_Count = 10\<rparr>"
  let ?r1 = "\<lparr>Domain = ''a.com'', Global_Classification = Some ''Democrat'', Sentiment = Some ''pos'',
         Local_Category = Some ''local'', Topic_Category = Some ''econ'', Score = Fin 5,
         Combination_Total_Count = 6\<rparr>"
  let ?posts = "[\<lparr>post_party = Some ''dem'', post_Sentiment_Category = Some ''pos'',
         post_Local_Category = Some ''local'', post_Topic_Category = Some ''econ'',
         post_Score = Fin 5, post_ave_sentiment = Fin 0\<rparr>,
        \<lparr>post_party = Some ''rep'', post_Sentiment_Category = Some ''neg'',
         post_Local_Category = None, post_Topic_Category = Some ''econ'',
         post_Score = Fin 3, post_ave_sentiment = Fin 0\<rparr>]"
  let ?all = "\<lparr>score_range = (Fin 0, Fin 10), party = Some ''All'', sentiment = Some ''All'',
        local_cat = Some ''All'', topic = Some ''All''\<rparr>"
  let ?local = "\<lparr>score_range = (Fin 0, Fin 10), party = Some ''All'', sentiment = Some ''All'',
        local_cat = Some ''local'', topic = Some ''All''\<rparr>"
  have sel_all: "local_cat ?all = Some ''All''"
    by simp
  have sel_local: "local_cat ?local = Some ''local''"
    by simp
  have sel_local': "local_cat ?local = Some ''local'' \<and> ''local'' \<noteq> ''All''
      \<and> ''local'' \<noteq> ''all''"
    by simp
  have res_all: "filter_dataframe ?df ?all = [?r0]"
    by (simp add: filter_dataframe_def fge_def cell_eq_def)
  have res_local: "filter_dataframe ?df ?local = [?r1]"
    by (simp add: filter_dataframe_def fge_def cell_eq_def)
  have res_posts: "run_posts_analysis_filter ?posts ?all = ?posts"
    by (simp add: run_posts_analysis_filter_def fge_def cell_eq_def)
  have mem_all: "?r0 \<in> set (filter_dataframe ?df ?all)"
    by (simp only: res_all list.set_intros)
  have mem_local: "?r1 \<in> set (filter_dataframe ?df ?local)"
    by (simp only: res_local list.set_intros)
  note on_all = local_cat_selector_asymmetry [of ?all ?df "''local''" ?posts]
  note on_local = local_cat_selector_asymmetry [of ?local ?df "''local''" ?posts]
  have only_all: "Local_Category ?r0 = Some ''all''"
    using on_all [THEN conjunct1, rule_format, OF sel_all mem_all] .
  have no_all: "Local_Category ?r1 \<noteq> Some ''all''"
    using on_local [THEN conjunct2, THEN conjunct2, THEN conjunct1, rule_format,
      OF sel_local' mem_local] .
  from sel_all res_all only_all sel_local res_local no_all res_posts show ?thesis
    by (intro conjI)
qed

section \<open>The domain statistics\<close>

text \<open>
  One domain has Democrat rows whose counts add up to \<open>2 ^ 53 + 1\<close>, another domain has
  no Democrat row. Then \<^verbatim>\<open>map\<close> gives a float column, and the count of the first domain
  comes back from it as \<open>2 ^ 53\<close>: not the sum of its rows.
\<close>

theorem party_count_float_round_trip_counterexample:
  "calculate_domain_statistics
     [\<lparr>Domain = ''a.com'', Global_Classification = Some ''Democrat'', Sentiment = Some ''pos'',
       Local_Category = Some ''all'', Topic_Category = Some ''econ'', Score = Fin 5,
       Combination_Total_Count = 9007199254740993\<rparr>,
      \<lparr>Domain = ''b.org'', Global_Classification = Some ''Both'', Sentiment = Some ''pos'',
       Local_Category = Some ''all'', Topic_Category = Some ''econ'', Score = Fin 3,
       Combination_Total_Count = 1\<rparr>]
   = [\<lparr>stat_Domain = ''a.com'', Total_Articles = 9007199254740993,
       Democrat_Articles = 9007199254740992, Republican_Articles = 0,
       Average_Score = Fin 5, Min_Score = Fin 5, Max_Score = Fin 5,
       Party = Some ''Democrat''\<rparr>,
      \<lparr>stat_Domain = ''b.org'', Total_Articles = 1,
       Democrat_Articles = 0, Republican_Articles = 0,
       Average_Score = Fin 3, Min_Score = Fin 3, Max_Score = Fin 3,
       Party = Some ''Both''\<rparr>]
   \<and> (9007199254740992 :: int64) \<noteq> 9007199254740993"
  by (simp add: stats_eval fl_pos_eq [where E = 53] floor_rat_numeral)

text \<open>
  Claim C3, amended. For the two rows of domain \<^verbatim>\<open>a.com\<close>, one \<^verbatim>\<open>Democrat\<close> with count 10
  and score 5.0, one \<^verbatim>\<open>Republican\<close> with count 4 and score 3.0 (whatever their sentiment
  and topic), \<^verbatim>\<open>calculate_domain_statistics\<close> returns exactly one row: \<^verbatim>\<open>a.com\<close>, 14 articles
  in total, 10 Democrat, 4 Republican, average score 4.0. In general, the Democrat count of
  an output row is the int64 sum of \<^verbatim>\<open>Combination_Total_Count\<close> over the rows of that
  domain whose classification is one of \<^verbatim>\<open>Democrat\<close>, \<^verbatim>\<open>Democratic\<close>, \<^verbatim>\<open>dem\<close>, provided that
  this sum is at most \<open>2 ^ 53\<close> in magnitude; the Republican count is the same sum over
  \<^verbatim>\<open>Republican\<close>, \<^verbatim>\<open>rep\<close>, under the same proviso; and a domain without any row of a party
  gets the count 0 for it.
\<close>

theorem domain_statistics_example_and_party_counts:
  "calculate_domain_statistics
     [\<lparr>Domain = ''a.com'', Global_Classification = Some ''Democrat'', Sentiment = s1,
       Local_Category = Some ''all'', Topic_Category = t1, Score = Fin 5,
       Combination_Total_Count = 10\<rparr>,
      \<lparr>Domain = ''a.com'', Global_Classification = Some ''Republican'', Sentiment = s2,
       Local_Category = Some ''all'', Topic_Category = t2, Score = Fin 3,
       Combination_Total_Count = 4\<rparr>]
   = [\<lparr>stat_Domain = ''a.com'', Total_Articles = 14, Democrat_Articles = 10,
       Republican_Articles = 4, Average_Score = Fin 4, Min_Score = Fin 3, Max_Score = Fin 5,
       Party = Some ''Democrat''\<rparr>]
   \<and> (\<forall>s \<in> set (calculate_domain_statistics df).
        (\<bar>sint (sum_list (map Combination_Total_Count
            (filter (\<lambda>r. Domain r = stat_Domain s
               \<and> isin (Global_Classification r) [''Democrat'', ''Democratic'', ''dem'']) df)))\<bar> \<le> 2 ^ 53
         \<longrightarrow> Democrat_Articles s =
          sum_list (map Combination_Total_Count
            (filter (\<lambda>r. Domain r = stat_Domain s
               \<and> isin (Global_Classification r) [''Democrat'', ''Democratic'', ''dem'']) df)))
      \<and> (\<bar>sint (sum_list (map Combination_Total_Count
            (filter (\<lambda>r. Domain r = stat_Domain s
               \<and> isin (Global_Classification r) [''Republican'', ''rep'']) df)))\<bar> \<le> 2 ^ 53
         \<longrightarrow> Republican_Articles s =
          sum_list (map Combination_Total_Count
            (filter (\<lambda>r. Domain r = stat_Domain s
               \<and> isin (Global_Classification r) [''Republican'', ''rep'']) df)))
      \<and> ((\<forall>r \<in> set df. Domain r = stat_Domain s \<longrightarrow>
              \<not> isin (Global_Classification r) [''Democrat'', ''Democratic'', ''dem''])
          \<longrightarrow> Democrat_Articles s = 0)
      \<and> ((\<forall>r \<in> set df. Domain r = stat_Domain s \<longrightarrow>
              \<not> isin (Global_Classification r) [''Republican'', ''rep''])
          \<longrightarrow> Republican_Articles s = 0))"
proof (intro conjI ballI impI)
  show "calculate_domain_statistics
     [\<lparr>Domain = ''a.com'', Global_Classification = Some ''Democrat'', Sentiment = s1,
       Local_Category = Some ''all'', Topic_Category = t1, Score = Fin 5,
       Combination_Total_Count = 10\<rparr>,
      \<lparr>Domain = ''a.com'', Global_Classification = Some ''Republican'', Sentiment = s2,
       Local_Category = Some ''all'', Topic_Category = t2, Score = Fin 3,
       Combination_Total_Count = 4\<rparr>]
   = [\<lparr>stat_Domain = ''a.com'', Total_Articles = 14, Democrat_Articles = 10,
       Republican_Articles = 4, Average_Score = Fin 4, Min_Score = Fin 3, Max_Score = Fin 5,
       Party = Some ''Democrat''\<rparr>]"
    by (simp add: stats_eval)
next
  fix s
  assume s: "s \<in> set (calculate_domain_statistics df)"
    and "\<bar>sint (sum_list (map Combination_Total_Count
            (filter (\<lambda>r. Domain r = stat_Domain s
               \<and> isin (Global_Classification r) [''Democrat'', ''Democratic'', ''dem'']) df)))\<bar> \<le> 2 ^ 53"
  then have "map_fillna0 (dem_counts df) (map fst (stats_df df)) (stat_Domain s) =
          sum_list (map Combination_Total_Count
            (filter (\<lambda>r. Domain r = stat_Domain s
               \<and> isin (Global_Classification r) [''Democrat'', ''Democratic'', ''dem'']) df))"
    unfolding dem_counts_def by (intro map_fillna0_party_counts)
  with stats_row [OF s] show "Democrat_Articles s =
          sum_list (map Combination_Total_Count
            (filter (\<lambda>r. Domain r = stat_Domain s
               \<and> isin (Global_Classification r) [''Democrat'', ''Democratic'', ''dem'']) df))"
    by simp
next
  fix s
  assume s: "s \<in> set (calculate_domain_statistics df)"
    and "\<bar>sint (sum_list (map Combination_Total_Count
            (filter (\<lambda>r. Domain r = stat_Domain s
               \<and> isin (Global_Classification r) [''Republican'', ''rep'']) df)))\<bar> \<le> 2 ^ 53"
  then have "map_fillna0 (rep_counts df) (map fst (stats_df df)) (stat_Domain s) =
          sum_list (map Combination_Total_Count
            (filter (\<lambda>r. Domain r = stat_Domain s
               \<and> isin (Global_Classification r) [''Republican'', ''rep'']) df))"
    unfolding rep_counts_def by (intro map_fillna0_party_counts)
  with stats_row [OF s] show "Republican_Articles s =
          sum_list (map Combination_Total_Count
            (filter (\<lambda>r. Domain r = stat_Domain s
               \<and> isin (Global_Classification r) [''Republican'', ''rep'']) df))"
    by simp
next
  fix s
  assume s: "s \<in> set (calculate_domain_statistics df)"
    and none: "\<forall>r \<in> set df. Domain r = stat_Domain s \<longrightarrow>
              \<not> isin (Global_Classification r) [''Democrat'', ''Democratic'', ''dem'']"
  from none have "map_fillna0 (dem_counts df) (map fst (stats_df df)) (stat_Domain s) = 0"
    unfolding dem_counts_def by (rule map_fillna0_no_rows)
  with stats_row [OF s] show "Democrat_Articles s = 0"
    by simp
next
  fix s
  assume s: "s \<in> set (calculate_domain_statistics df)"
    and none: "\<forall>r \<in> set df. Domain r = stat_Domain s \<longrightarrow>
              \<not> isin (Global_Classification r) [''Republican'', ''rep'']"
  from none have "map_fillna0 (rep_counts df) (map fst (stats_df df)) (stat_Domain s) = 0"
    unfolding rep_counts_def by (rule map_fillna0_no_rows)
  with stats_row [OF s] show "Republican_Articles s = 0"
    by simp
qed

theorem domain_statistics_example_and_party_counts_witness:
  "calculate_domain_statistics
      [\<lparr>Domain = ''a.com'', Global_Classification = Some ''Democrat'', Sentiment = Some ''pos'',
        Local_Category = Some ''all'', Topic_Category = Some ''econ'', Score = Fin 5,
        Combination_Total_Count = 10\<rparr>,
       \<lparr>Domain = ''a.com'', Global_Classification = Some ''Republican'', Sentiment = Some ''neg'',
        Local_Category = Some ''all'', Topic_Category = Some ''econ'', Score = Fin 3,
        Combination_Total_Count = 4\<rparr>,
       \<lparr>Domain = ''b.org'', Global_Classification = Some ''Both'', Sentiment = Some ''pos'',
        Local_Category = Some ''all'', Topic_Category = Some ''econ'', Score = Fin 2,
        Combination_Total_Count = 40\<rparr>]
   = [\<lparr>stat_Domain = ''b.org'', Total_Articles = 40, Democrat_Articles = 0,
         Republican_Articles = 0, Average_Score = Fin 2, Min_Score = Fin 2, Max_Score = Fin 2,
         Party = Some ''Both''\<rparr>,
        \<lparr>stat_Domain = ''a.com'', Total_Articles = 14, Democrat_Articles = 10,
         Republican_Articles = 4, Average_Score = Fin 4, Min_Score = Fin 3, Max_Score = Fin 5,
         Party = Some ''Democrat''\<rparr>]
   \<and> Democrat_Articles
        \<lparr>stat_Domain = ''b.org'', Total_Articles = 40, Democrat_Articles = 0,
         Republican_Articles = 0, Average_Score = Fin 2, Min_Score = Fin 2, Max_Score = Fin 2,
         Party = Some ''Both''\<rparr> = 0
   \<and> Democrat_Articles
        \<lparr>stat_Domain = ''a.com'', Total_Articles = 14, Democrat_Articles = 10,
         Republican_Articles = 4, Average_Score = Fin 4, Min_Score = Fin 3, Max_Score = Fin 5,
         Party = Some ''Democrat''\<rparr> = 10"
proof -
  let ?df = "[\<lparr>Domain = ''a.com'', Global_Classification = Some ''Democrat'', Sentiment = Some ''pos'',
        Local_Category = Some ''all'', Topic_Category = Some ''econ'', Score = Fin 5,
        Combination_Total_Count = 10\<rparr>,
       \<lparr>Domain = ''a.com'', Global_Classification = Some ''Republican'', Sentiment = Some ''neg'',
        Local_Category = Some ''all'', Topic_Category = Some ''econ'', Score = Fin 3,
        Combination_Total_Count = 4\<rparr>,
       \<lparr>Domain = ''b.org'', Global_Classification = Some ''Both'', Sentiment = Some ''pos'',
        Local_Category = Some ''all'', Topic_Category = Some ''econ'', Score = Fin 2,
        Combination_Total_Count = 40\<rparr>]"
  let ?sb = "\<lparr>stat_Domain = ''b.org'', Total_Articles = 40, Democrat_Articles = 0,
         Republican_Articles = 0, Average_Score = Fin 2, Min_Score = Fin 2, Max_Score = Fin 2,
         Party = Some ''Both''\<rparr>"
  let ?sa = "\<lparr>stat_Domain = ''a.com'', Total_Articles = 14, Democrat_Articles = 10,
         Republican_Articles = 4, Average_Score = Fin 4, Min_Score = Fin 3, Max_Score = Fin 5,
         Party = Some ''Democrat''\<rparr>"
  have res: "calculate_domain_statistics ?df
   = [\<lparr>stat_Domain = ''b.org'', Total_Articles = 40, Democrat_Articles = 0,
         Republican_Articles = 0, Average_Score = Fin 2, Min_Score = Fin 2, Max_Score = Fin 2,
         Party = Some ''Both''\<rparr>,
        \<lparr>stat_Domain = ''a.com'', Total_Articles = 14, Democrat_Articles = 10,
         Republican_Articles = 4, Average_Score = Fin 4, Min_Score = Fin 3, Max_Score = Fin 5,
         Party = Some ''Democrat''\<rparr>]"
    by (simp add: stats_eval)
  then have memb: "?sb \<in> set (calculate_domain_statistics ?df)"
    and mema: "?sa \<in> set (calculate_domain_statistics ?df)"
    by simp_all
  note general = domain_statistics_example_and_party_counts [where df = ?df, THEN conjunct2]
  have none: "\<forall>r \<in> set ?df. Domain r = stat_Domain ?sb \<longrightarrow>
      \<not> isin (Global_Classification r) [''Democrat'', ''Democratic'', ''dem'']"
    by (simp add: isin_def)
  from general [rule_format, OF memb] none have zero: "Democrat_Articles ?sb = 0"
    by blast
  have small: "\<bar>sint (sum_list (map Combination_Total_Count
      (filter (\<lambda>r. Domain r = stat_Domain ?sa
         \<and> isin (Global_Classification r) [''Democrat'', ''Democratic'', ''dem'']) ?df)))\<bar>
      \<le> 2 ^ 53"
    by (simp add: isin_def)
  from general [rule_format, OF mema] small
  have "Democrat_Articles ?sa =
      sum_list (map Combination_Total_Count
      (filter (\<lambda>r. Domain r = stat_Domain ?sa
         \<and> isin (Global_Classification r) [''Democrat'', ''Democratic'', ''dem'']) ?df))"
    by blast
  then have ten: "Democrat_Articles ?sa = 10"
    by (simp add: isin_def)
  from res zero ten show ?thesis
    by (intro conjI)
qed

text \<open>
  Claim C4. The \<^verbatim>\<open>Total Articles\<close> column of the statistics adds up to the sum of
  \<^verbatim>\<open>Combination_Total_Count\<close> over all rows of the table given to
  \<^verbatim>\<open>calculate_domain_statistics\<close>, as int64 sums and, when the counts are non-negative and
  their sum is below \<open>2 ^ 63\<close>, as sums of integers; and the rows of the statistics come in
  descending order of \<^verbatim>\<open>Total Articles\<close>.
\<close>

theorem total_articles_sum_and_order:
  "sum_list (map Total_Articles (calculate_domain_statistics df))
     = sum_list (map Combination_Total_Count df)
   \<and> sorted_wrt (\<lambda>a b. sint (Total_Articles b) \<le> sint (Total_Articles a))
        (calculate_domain_statistics df)
   \<and> ((\<forall>r \<in> set df. 0 \<le> sint (Combination_Total_Count r))
        \<and> sum_list (map (\<lambda>r. sint (Combination_Total_Count r)) df) < 2 ^ 63
      \<longrightarrow> sum_list (map (\<lambda>s. sint (Total_Articles s)) (calculate_domain_statistics df))
            = sum_list (map (\<lambda>r. sint (Combination_Total_Count r)) df))"
proof (intro conjI impI)
  have "sum_list (map (\<lambda>s. fst (snd s)) (stats_df df))
      = sum_list (map (\<lambda>s. fst (snd s)) (map agg_domain (groupby Domain df)))"
    unfolding stats_df_def by (rule sum_list_sort_values_desc)
  also have "\<dots> = sum_list (map (\<lambda>g. sum_list (map Combination_Total_Count (snd g)))
                      (groupby Domain df))"
    by (simp add: agg_domain_def comp_def)
  also have "\<dots> = sum_list (map Combination_Total_Count df)"
    by (rule groupby_sum)
  finally show "sum_list (map Total_Articles (calculate_domain_statistics df))
     = sum_list (map Combination_Total_Count df)"
    by (simp only: Total_Articles_calc)
next
  have "sorted_wrt (\<lambda>a b. sint (fst (snd b)) \<le> sint (fst (snd a))) (stats_df df)"
    unfolding stats_df_def by (rule sorted_sort_values_desc)
  then have "sorted_wrt (\<lambda>a b. sint b \<le> sint a) (map (\<lambda>s. fst (snd s)) (stats_df df))"
    by (simp add: sorted_wrt_map)
  then have "sorted_wrt (\<lambda>a b. sint b \<le> sint a)
      (map Total_Articles (calculate_domain_statistics df))"
    by (simp only: Total_Articles_calc)
  then show "sorted_wrt (\<lambda>a b. sint (Total_Articles b) \<le> sint (Total_Articles a))
               (calculate_domain_statistics df)"
    by (simp add: sorted_wrt_map)
next
  let ?h = "\<lambda>r. sint (Combination_Total_Count r)"
  assume "(\<forall>r \<in> set df. 0 \<le> ?h r) \<and> sum_list (map ?h df) < 2 ^ 63"
  then have nonneg: "\<forall>r \<in> set df. 0 \<le> ?h r" and bound: "sum_list (map ?h df) < 2 ^ 63"
    by simp_all
  have "map (\<lambda>s. sint (Total_Articles s)) (calculate_domain_statistics df)
      = map sint (map Total_Articles (calculate_domain_statistics df))"
    by simp
  also have "\<dots> = map (\<lambda>t. sint (fst (snd t))) (stats_df df)"
    by (simp only: Total_Articles_calc) simp
  finally have "sum_list (map (\<lambda>s. sint (Total_Articles s)) (calculate_domain_statistics df))
      = sum_list (map (\<lambda>t. sint (fst (snd t))) (stats_df df))"
    by simp
  also have "\<dots> = sum_list (map (\<lambda>t. sint (fst (snd t))) (map agg_domain (groupby Domain df)))"
    unfolding stats_df_def by (rule sum_list_sort_values_desc)
  also have "\<dots> = sum_list (map (\<lambda>g. sint (sum_list (map Combination_Total_Count (snd g))))
                      (groupby Domain df))"
    by (simp add: agg_domain_def comp_def)
  also have "\<dots> = sum_list (map (\<lambda>g. sum_list (map ?h (snd g))) (groupby Domain df))"
  proof (rule arg_cong [where f = sum_list], rule map_cong [OF refl])
    fix g assume "g \<in> set (groupby Domain df)"
    then have "snd g = filter (\<lambda>r. Domain r = fst g) df"
      by (auto simp: set_groupby)
    then show "sint (sum_list (map Combination_Total_Count (snd g))) = sum_list (map ?h (snd g))"
      using sint_filter_sum [OF nonneg bound] by simp
  qed
  also have "\<dots> = sum_list (map ?h df)"
    by (rule groupby_sum)
  finally show "sum_list (map (\<lambda>s. sint (Total_Articles s)) (calculate_domain_statistics df))
            = sum_list (map ?h df)" .
qed

theorem total_articles_sum_and_order_witness:
  "sum_list (map Total_Articles (calculate_domain_statistics
      [\<lparr>Domain = ''a.com'', Global_Classification = Some ''Democrat'', Sentiment = Some ''pos'',
        Local_Category = Some ''all'', Topic_Category = Some ''econ'', Score = Fin 5,
        Combination_Total_Count = 10\<rparr>,
       \<lparr>Domain = ''a.com'', Global_Classification = Some ''Republican'', Sentiment = Some ''neg'',
        Local_Category = Some ''all'', Topic_Category = Some ''econ'', Score = Fin 3,
        Combination_Total_Count = 4\<rparr>,
       \<lparr>Domain = ''b.org'', Global_Classification = Some ''Both'', Sentiment = Some ''pos'',
        Local_Category = Some ''all'', Topic_Category = Some ''econ'', Score = Fin 2,
        Combination_Total_Count = 40\<rparr>]))
   = 54
   \<and> map Total_Articles (calculate_domain_statistics
      [\<lparr>Domain = ''a.com'', Global_Classification = Some ''Democrat'', Sentiment = Some ''pos'',
        Local_Category = Some ''all'', Topic_Category = Some ''econ'', Score = Fin 5,
        Combination_Total_Count = 10\<rparr>,
       \<lparr>Domain = ''a.com'', Global_Classification = Some ''Republican'', Sentiment = Some ''neg'',
        Local_Category = Some ''all'', Topic_Category = Some ''econ'', Score = Fin 3,
        Combination_Total_Count = 4\<rparr>,
       \<lparr>Domain = ''b.org'', Global_Classification = Some ''Both'', Sentiment = Some ''pos'',
        Local_Category = Some ''all'', Topic_Category = Some ''econ'', Score = Fin 2,
        Combination_Total_Count = 40\<rparr>])
   = [40, 14]
   \<and> sum_list (map (\<lambda>s. sint (Total_Articles s)) (calculate_domain_statistics
      [\<lparr>Domain = ''a.com'', Global_Classification = Some ''Democrat'', Sentiment = Some ''pos'',
        Local_Category = Some ''all'', Topic_Category = Some ''econ'', Score = Fin 5,
        Combination_Total_Count = 10\<rparr>,
       \<lparr>Domain = ''a.com'', Global_Classification = Some ''Republican'', Sentiment = Some ''neg'',
        Local_Category = Some ''all'', Topic_Category = Some ''econ'', Score = Fin 3,
        Combination_Total_Count = 4\<rparr>,
       \<lparr>Domain = ''b.org'', Global_Classification = Some ''Both'', Sentiment = Some ''pos'',
        Local_Category = Some ''all'', Topic_Category = Some ''econ'', Score = Fin 2,
        Combination_Total_Count = 40\<rparr>]))
   = 54"
proof -
  let ?df = "[\<lparr>Domain = ''a.com'', Global_Classification = Some ''Democrat'', Sentiment = Some ''pos'',
        Local_Category = Some ''all'', Topic_Category = Some ''econ'', Score = Fin 5,
        Combination_Total_Count = 10\<rparr>,
       \<lparr>Domain = ''a.com'', Global_Classification = Some ''Republican'', Sentiment = Some ''neg'',
        Local_Category = Some ''all'', Topic_Category = Some ''econ'', Score = Fin 3,
        Combination_Total_Count = 4\<rparr>,
       \<lparr>Domain = ''b.org'', Global_Classification = Some ''Both'', Sentiment = Some ''pos'',
        Local_Category = Some ''all'', Topic_Category = Some ''econ'', Score = Fin 2,
        Combination_Total_Count = 40\<rparr>]"
  have res: "calculate_domain_statistics ?df
   = [\<lparr>stat_Domain = ''b.org'', Total_Articles = 40, Democrat_Articles = 0,
         Republican_Articles = 0, Average_Score = Fin 2, Min_Score = Fin 2, Max_Score = Fin 2,
         Party = Some ''Both''\<rparr>,
        \<lparr>stat_Domain = ''a.com'', Total_Articles = 14, Democrat_Articles = 10,
         Republican_Articles = 4, Average_Score = Fin 4, Min_Score = Fin 3, Max_Score = Fin 5,
         Party = Some ''Democrat''\<rparr>]"
    by (simp add: stats_eval)
  note inst = total_articles_sum_and_order [of ?df]
  have "sum_list (map Combination_Total_Count ?df) = 54"
    by simp
  with inst have total: "sum_list (map Total_Articles (calculate_domain_statistics ?df)) = 54"
    by (simp only:)
  have hyp: "(\<forall>r \<in> set ?df. 0 \<le> sint (Combination_Total_Count r))
      \<and> sum_list (map (\<lambda>r. sint (Combination_Total_Count r)) ?df) < 2 ^ 63"
    by simp
  from inst [THEN conjunct2, THEN conjunct2] hyp
  have "sum_list (map (\<lambda>s. sint (Total_Articles s)) (calculate_domain_statistics ?df))
      = sum_list (map (\<lambda>r. sint (Combination_Total_Count r)) ?df)"
    by (rule mp)
  then have ints: "sum_list (map (\<lambda>s. sint (Total_Articles s))
      (calculate_domain_statistics ?df)) = 54"
    by simp
  have order: "map Total_Articles (calculate_domain_statistics ?df) = [40, 14]"
    by (simp only: res) simp
  from total order ints show ?thesis
    by (intro conjI)
qed

text \<open>
  Two rows of one domain with the count \<open>2 ^ 62\<close> each, one of them Democrat, the other of
  no party: the int64 total wraps around to \<open>- 2 ^ 63\<close>, below the Democrat count
  \<open>2 ^ 62\<close>.
\<close>

theorem party_articles_overflow_counterexample:
  "calculate_domain_statistics
     [\<lparr>Domain = ''a.com'', Global_Classification = Some ''Democrat'', Sentiment = Some ''pos'',
       Local_Category = Some ''all'', Topic_Category = Some ''econ'', Score = Fin 5,
       Combination_Total_Count = 4611686018427387904\<rparr>,
      \<lparr>Domain = ''a.com'', Global_Classification = Some ''Both'', Sentiment = Some ''pos'',
       Local_Category = Some ''all'', Topic_Category = Some ''econ'', Score = Fin 3,
       Combination_Total_Count = 4611686018427387904\<rparr>]
   = [\<lparr>stat_Domain = ''a.com'', Total_Articles = 9223372036854775808,
       Democrat_Articles = 4611686018427387904, Republican_Articles = 0,
       Average_Score = Fin 4, Min_Score = Fin 3, Max_Score = Fin 5,
       Party = Some ''Democrat''\<rparr>]
   \<and> sint (9223372036854775808 :: int64) = - 9223372036854775808
   \<and> sint (4611686018427387904 :: int64) = 4611686018427387904
   \<and> \<not> (4611686018427387904 + 0 \<le> (- 9223372036854775808 :: int))"
  by (simp add: stats_eval)

text \<open>
  Claim C10, amended. For every table of article counts (\<^verbatim>\<open>Combination_Total_Count\<close>
  non-negative) that add up to at most \<open>2 ^ 53\<close>, and every row of the statistics, the
  Democrat and the Republican counts together are at most \<^verbatim>\<open>Total Articles\<close>: rows whose
  classification is in neither list (\<^verbatim>\<open>Both\<close>, or a missing one) count for the total only.
\<close>

theorem party_articles_le_total:
  assumes nonneg: "\<forall>r \<in> set df. 0 \<le> sint (Combination_Total_Count r)"
      and bound: "sum_list (map (\<lambda>r. sint (Combination_Total_Count r)) df) \<le> 2 ^ 53"
      and s: "s \<in> set (calculate_domain_statistics df)"
  shows "sint (Democrat_Articles s) + sint (Republican_Articles s) \<le> sint (Total_Articles s)"
proof -
  let ?h = "\<lambda>r. sint (Combination_Total_Count r)"
  let ?dem = "\<lambda>r. Domain r = stat_Domain s
      \<and> isin (Global_Classification r) [''Democrat'', ''Democratic'', ''dem'']"
  let ?rep = "\<lambda>r. Domain r = stat_Domain s
      \<and> isin (Global_Classification r) [''Republican'', ''rep'']"
  let ?dom = "\<lambda>r. Domain r = stat_Domain s"
  have bound63: "sum_list (map ?h df) < 2 ^ 63"
    using bound by simp
  note sint_sum = sint_filter_sum [OF nonneg bound63]
  have range: "0 \<le> sum_list (map ?h (filter P df))"
    "sum_list (map ?h (filter P df)) \<le> 2 ^ 53" for P
  proof -
    show "0 \<le> sum_list (map ?h (filter P df))"
      using nonneg by (intro sum_list_filter_nonneg) simp
    have "sum_list (map ?h (filter P df)) \<le> sum_list (map ?h df)"
      using nonneg by (intro sum_list_filter_le_all) simp
    with bound show "sum_list (map ?h (filter P df)) \<le> 2 ^ 53"
      by simp
  qed
  have small: "\<bar>sint (sum_list (map Combination_Total_Count (filter P df)))\<bar> \<le> 2 ^ 53" for P
    unfolding sint_sum using range [of P] by simp
  have disj: "\<not> (?dem r \<and> ?rep r)" for r :: DomainRecord
    by (auto simp: isin_def split: option.splits)
  have dem: "Democrat_Articles s = sum_list (map Combination_Total_Count (filter ?dem df))"
    using stats_row [OF s] map_fillna0_party_counts [OF small]
    by (simp add: dem_counts_def)
  have rep: "Republican_Articles s = sum_list (map Combination_Total_Count (filter ?rep df))"
    using stats_row [OF s] map_fillna0_party_counts [OF small]
    by (simp add: rep_counts_def)
  have tot: "Total_Articles s = sum_list (map Combination_Total_Count (filter ?dom df))"
    using stats_row [OF s] by simp
  have "sint (Democrat_Articles s) + sint (Republican_Articles s)
      = sum_list (map ?h (filter ?dem df)) + sum_list (map ?h (filter ?rep df))"
    unfolding dem rep sint_sum ..
  also have "\<dots> = sum_list (map ?h (filter (\<lambda>r. ?dem r \<or> ?rep r) df))"
    using disj by (rule sum_list_filter_disj)
  also have "\<dots> \<le> sum_list (map ?h (filter ?dom df))"
    using nonneg by (intro sum_list_filter_le) auto
  also have "\<dots> = sint (Total_Articles s)"
    unfolding tot sint_sum ..
  finally show ?thesis .
qed

theorem party_articles_le_total_witness:
  "calculate_domain_statistics
      [\<lparr>Domain = ''a.com'', Global_Classification = Some ''Democrat'', Sentiment = Some ''pos'',
        Local_Category = Some ''all'', Topic_Category = Some ''econ'', Score = Fin 5,
        Combination_Total_Count = 10\<rparr>,
       \<lparr>Domain = ''a.com'', Global_Classification = Some ''Republican'', Sentiment = Some ''neg'',
        Local_Category = Some ''all'', Topic_Category = Some ''econ'', Score = Fin 3,
        Combination_Total_Count = 4\<rparr>,
       \<lparr>Domain = ''b.org'', Global_Classification = Some ''Both'', Sentiment = Some ''pos'',
        Local_Category = Some ''all'', Topic_Category = Some ''econ'', Score = Fin 2,
        Combination_Total_Count = 40\<rparr>]
   = [\<lparr>stat_Domain = ''b.org'', Total_Articles = 40, Democrat_Articles = 0,
         Republican_Articles = 0, Average_Score = Fin 2, Min_Score = Fin 2, Max_Score = Fin 2,
         Party = Some ''Both''\<rparr>,
        \<lparr>stat_Domain = ''a.com'', Total_Articles = 14, Democrat_Articles = 10,
         Republican_Articles = 4, Average_Score = Fin 4, Min_Score = Fin 3, Max_Score = Fin 5,
         Party = Some ''Democrat''\<rparr>]
   \<and> sum_list (map sint [10, 4, 40 :: int64]) \<le> 2 ^ 53
   \<and> sint (Democrat_Articles
        \<lparr>stat_Domain = ''a.com'', Total_Articles = 14, Democrat_Articles = 10,
         Republican_Articles = 4, Average_Score = Fin 4, Min_Score = Fin 3, Max_Score = Fin 5,
         Party = Some ''Democrat''\<rparr>)
     + sint (Republican_Articles
        \<lparr>stat_Domain = ''a.com'', Total_Articles = 14, Democrat_Articles = 10,
         Republican_Articles = 4, Average_Score = Fin 4, Min_Score = Fin 3, Max_Score = Fin 5,
         Party = Some ''Democrat''\<rparr>)
     \<le> sint (Total_Articles
        \<lparr>stat_Domain = ''a.com'', Total_Articles = 14, Democrat_Articles = 10,
         Republican_Articles = 4, Average_Score = Fin 4, Min_Score = Fin 3, Max_Score = Fin 5,
         Party = Some ''Democrat''\<rparr>)"
proof -
  let ?df = "[\<lparr>Domain = ''a.com'', Global_Classification = Some ''Democrat'', Sentiment = Some ''pos'',
        Local_Category = Some ''all'', Topic_Category = Some ''econ'', Score = Fin 5,
        Combination_Total_Count = 10\<rparr>,
       \<lparr>Domain = ''a.com'', Global_Classification = Some ''Republican'', Sentiment = Some ''neg'',
        Local_Category = Some ''all'', Topic_Category = Some ''econ'', Score = Fin 3,
        Combination_Total_Count = 4\<rparr>,
       \<lparr>Domain = ''b.org'', Global_Classification = Some ''Both'', Sentiment = Some ''pos'',
        Local_Category = Some ''all'', Topic_Category = Some ''econ'', Score = Fin 2,
        Combination_Total_Count = 40\<rparr>]"
  let ?s = "\<lparr>stat_Domain = ''a.com'', Total_Articles = 14, Democrat_Articles = 10,
         Republican_Articles = 4, Average_Score = Fin 4, Min_Score = Fin 3, Max_Score = Fin 5,
         Party = Some ''Democrat''\<rparr>"
  have nonneg: "\<forall>r \<in> set ?df. 0 \<le> sint (Combination_Total_Count r)"
    by simp
  have bound: "sum_list (map (\<lambda>r. sint (Combination_Total_Count r)) ?df) \<le> 2 ^ 53"
    by simp
  have bound': "sum_list (map sint [10, 4, 40 :: int64]) \<le> 2 ^ 53"
    by simp
  have res: "calculate_domain_statistics ?df
   = [\<lparr>stat_Domain = ''b.org'', Total_Articles = 40, Democrat_Articles = 0,
         Republican_Articles = 0, Average_Score = Fin 2, Min_Score = Fin 2, Max_Score = Fin 2,
         Party = Some ''Both''\<rparr>,
        \<lparr>stat_Domain = ''a.com'', Total_Articles = 14, Democrat_Articles = 10,
         Republican_Articles = 4, Average_Score = Fin 4, Min_Score = Fin 3, Max_Score = Fin 5,
         Party = Some ''Democrat''\<rparr>]"
    by (simp add: stats_eval)
  then have mem: "?s \<in> set (calculate_domain_statistics ?df)"
    by simp
  from res bound' party_articles_le_total [OF nonneg bound mem] show ?thesis
    by (intro conjI)
qed

section \<open>The sunburst table\<close>

text \<open>
  Claim C9. \<^verbatim>\<open>groupby\<close> leaves out the rows with a missing grouping key: the counts of the
  sunburst groups add up to the number of filtered rows in which \<^verbatim>\<open>Topic_Category\<close>,
  \<^verbatim>\<open>Local_Category\<close>, \<^verbatim>\<open>Sentiment_Category\<close> and \<^verbatim>\<open>party\<close> are all present. A row with a
  missing \<^verbatim>\<open>Local_Category\<close> is in no group (the keys and counts are those of the table
  without such rows), yet it is counted in \<^verbatim>\<open>total_count_filtered\<close>, the length of the
  filtered table, against which every group's percentage is taken.
\<close>

theorem sunburst_counts_exclude_null_keys:
  "sum_list (map count (sunburst_data posts_df filtered_posts))
     = int (length (filter (\<lambda>r. post_Topic_Category r \<noteq> None \<and> post_Local_Category r \<noteq> None
                    \<and> post_Sentiment_Category r \<noteq> None \<and> post_party r \<noteq> None)
                      filtered_posts))
   \<and> map sb_key (sunburst_data posts_df
          (filter (\<lambda>r. post_Local_Category r \<noteq> None) filtered_posts))
       = map sb_key (sunburst_data posts_df filtered_posts)
   \<and> map count (sunburst_data posts_df
          (filter (\<lambda>r. post_Local_Category r \<noteq> None) filtered_posts))
       = map count (sunburst_data posts_df filtered_posts)
   \<and> (\<forall>g \<in> set (sunburst_data posts_df filtered_posts).
         percentage_filtered g = percentage (count g) (int (length filtered_posts)))"
proof (intro conjI ballI)
  show "sum_list (map count (sunburst_data posts_df filtered_posts))
     = int (length (filter (\<lambda>r. post_Topic_Category r \<noteq> None \<and> post_Local_Category r \<noteq> None
                    \<and> post_Sentiment_Category r \<noteq> None \<and> post_party r \<noteq> None)
                      filtered_posts))"
    by (simp only: count_sunburst_data sunburst_counts_sum length_map_filter_conv
        group_key_None_iff)
next
  show "map sb_key (sunburst_data posts_df
          (filter (\<lambda>r. post_Local_Category r \<noteq> None) filtered_posts))
       = map sb_key (sunburst_data posts_df filtered_posts)"
    by (simp only: sb_key_sunburst_data sunburst_counts_drop_null_local)
next
  show "map count (sunburst_data posts_df
          (filter (\<lambda>r. post_Local_Category r \<noteq> None) filtered_posts))
       = map count (sunburst_data posts_df filtered_posts)"
    by (simp only: count_sunburst_data sunburst_counts_drop_null_local)
next
  fix g assume "g \<in> set (sunburst_data posts_df filtered_posts)"
  then show "percentage_filtered g = percentage (count g) (int (length filtered_posts))"
    by (rule sunburst_row)
qed

theorem sunburst_counts_exclude_null_keys_witness:
  "sum_list (map count (sunburst_data
      [\<lparr>post_party = Some ''dem'', post_Sentiment_Category = Some ''pos'',
         post_Local_Category = Some ''local'', post_Topic_Category = Some ''econ'',
         post_Score = Fin 5, post_ave_sentiment = Fin 0\<rparr>,
       \<lparr>post_party = Some ''rep'', post_Sentiment_Category = Some ''neg'',
         post_Local_Category = None, post_Topic_Category = Some ''econ'',
         post_Score = Fin 3, post_ave_sentiment = Fin 0\<rparr>]
      [\<lparr>post_party = Some ''dem'', post_Sentiment_Category = Some ''pos'',
         post_Local_Category = Some ''local'', post_Topic_Category = Some ''econ'',
         post_Score = Fin 5, post_ave_sentiment = Fin 0\<rparr>,
       \<lparr>post_party = Some ''rep'', post_Sentiment_Category = Some ''neg'',
         post_Local_Category = None, post_Topic_Category = Some ''econ'',
         post_Score = Fin 3, post_ave_sentiment = Fin 0\<rparr>]))
   = 1
   \<and> int (length
      [\<lparr>post_party = Some ''dem'', post_Sentiment_Category = Some ''pos'',
         post_Local_Category = Some ''local'', post_Topic_Category = Some ''econ'',
         post_Score = Fin 5, post_ave_sentiment = Fin 0\<rparr>,
       \<lparr>post_party = Some ''rep'', post_Sentiment_Category = Some ''neg'',
         post_Local_Category = None, post_Topic_Category = Some ''econ'',
         post_Score = Fin 3, post_ave_sentiment = Fin 0\<rparr>])
   = 2"
proof -
  let ?posts = "[\<lparr>post_party = Some ''dem'', post_Sentiment_Category = Some ''pos'',
         post_Local_Category = Some ''local'', post_Topic_Category = Some ''econ'',
         post_Score = Fin 5, post_ave_sentiment = Fin 0\<rparr>,
       \<lparr>post_party = Some ''rep'', post_Sentiment_Category = Some ''neg'',
         post_Local_Category = None, post_Topic_Category = Some ''econ'',
         post_Score = Fin 3, post_ave_sentiment = Fin 0\<rparr>]"
  have "int (length (filter (\<lambda>r. post_Topic_Category r \<noteq> None \<and> post_Local_Category r \<noteq> None
                    \<and> post_Sentiment_Category r \<noteq> None \<and> post_party r \<noteq> None) ?posts)) = 1"
    by simp
  with sunburst_counts_exclude_null_keys [of ?posts ?posts, THEN conjunct1]
  have "sum_list (map count (sunburst_data ?posts ?posts)) = 1"
    by (simp only:)
  then show ?thesis
    by simp
qed

text \<open>
  The percentage of 23 posts among 80 is 28.7: the binary64 quotient times one hundred is
  just below 28.75, whereas the exact percentage 28.75 is halfway between 28.7 and 28.8.
\<close>

lemma percentage_23_of_80:
  "percentage 23 80 = Fin (8078331831595827 / 281474976710656)"
  by (simp add: percentage_def true_divide_def float_of_int_def round_decimals_def
      fl_pos_eq [where E = "- 2"] fl_pos_eq [where E = 4] fl_pos_eq [where E = 8] fl_eval)

text \<open>
  Two posts pass the filter and one of them has no \<^verbatim>\<open>Local_Category\<close>: the only group
  holds one post, its percentage of the filtered posts is 50.0, and so is the sum of the
  percentages, far from 100.0 for a single rounding error of about 0.05.
\<close>

theorem percentage_sum_null_key_counterexample:
  "run_posts_analysis
      [\<lparr>post_party = Some ''dem'', post_Sentiment_Category = Some ''pos'',
         post_Local_Category = Some ''local'', post_Topic_Category = Some ''econ'',
         post_Score = Fin 5, post_ave_sentiment = Fin 0\<rparr>,
       \<lparr>post_party = Some ''rep'', post_Sentiment_Category = Some ''neg'',
         post_Local_Category = None, post_Topic_Category = Some ''econ'',
         post_Score = Fin 3, post_ave_sentiment = Fin 0\<rparr>]
      \<lparr>score_range = (Fin 0, Fin 10), party = Some ''All'', sentiment = Some ''All'',
        local_cat = Some ''All'', topic = Some ''All''\<rparr>
   = [\<lparr>sb_key = (''econ'', ''local'', ''pos'', ''dem''), count = 1,
       percentage_total = Fin 50, percentage_filtered = Fin 50\<rparr>]
   \<and> map percentage_filtered (run_posts_analysis
      [\<lparr>post_party = Some ''dem'', post_Sentiment_Category = Some ''pos'',
         post_Local_Category = Some ''local'', post_Topic_Category = Some ''econ'',
         post_Score = Fin 5, post_ave_sentiment = Fin 0\<rparr>,
       \<lparr>post_party = Some ''rep'', post_Sentiment_Category = Some ''neg'',
         post_Local_Category = None, post_Topic_Category = Some ''econ'',
         post_Score = Fin 3, post_ave_sentiment = Fin 0\<rparr>]
      \<lparr>score_range = (Fin 0, Fin 10), party = Some ''All'', sentiment = Some ''All'',
        local_cat = Some ''All'', topic = Some ''All''\<rparr>)
   = [Fin 50]
   \<and> \<not> \<bar>50 - 100\<bar> \<le> (1 / 20 + 1 / 10 ^ 12 :: rat)"
proof -
  have half: "fl (1 / 2) = Fin (1 / 2)"
    by (simp add: fl_pos_eq [where E = "- 1"] fl_eval)
  have res: "run_posts_analysis
      [\<lparr>post_party = Some ''dem'', post_Sentiment_Category = Some ''pos'',
         post_Local_Category = Some ''local'', post_Topic_Category = Some ''econ'',
         post_Score = Fin 5, post_ave_sentiment = Fin 0\<rparr>,
       \<lparr>post_party = Some ''rep'', post_Sentiment_Category = Some ''neg'',
         post_Local_Category = None, post_Topic_Category = Some ''econ'',
         post_Score = Fin 3, post_ave_sentiment = Fin 0\<rparr>]
      \<lparr>score_range = (Fin 0, Fin 10), party = Some ''All'', sentiment = Some ''All'',
        local_cat = Some ''All'', topic = Some ''All''\<rparr>
   = [\<lparr>sb_key = (''econ'', ''local'', ''pos'', ''dem''), count = 1,
       percentage_total = Fin 50, percentage_filtered = Fin 50\<rparr>]"
    by (simp add: run_posts_analysis_def run_posts_analysis_filter_def fge_def cell_eq_def
        sunburst_data_def sunburst_counts_def groupby_def group_key_def
        percentage_def true_divide_def float_of_int_def round_decimals_def half fl_eval)
  show ?thesis
    unfolding res by simp
qed

text \<open>
  Claim C5, amended. For every non-empty filtered table (of at most \<open>2 ^ 53\<close> rows, so
  that the counts are floats without error), each sunburst group's
  \<^verbatim>\<open>percentage_filtered\<close> is \<open>count / total_filtered * 100\<close> rounded to one decimal as
  binary64 arithmetic computes it, a finite number within 0.05 (and a float error below
  \<open>10 ^ -12\<close>) of the exact percentage; and when no filtered row has a missing grouping
  key, the sum of \<^verbatim>\<open>percentage_filtered\<close> over all groups is within that rounding error,
  taken once for each group, of 100.0.
\<close>

theorem percentage_filtered_rounding_and_sum:
  assumes nonempty: "filtered_posts \<noteq> []"
      and len: "length filtered_posts \<le> 2 ^ 53"
  shows "(\<forall>g \<in> set (sunburst_data posts_df filtered_posts).
            percentage_filtered g =
              round_decimals 1
                (fmul (true_divide (count g) (int (length filtered_posts))) (Fin 100))
            \<and> (\<exists>p. percentage_filtered g = Fin p
                  \<and> \<bar>p - of_int (count g) / of_int (int (length filtered_posts)) * 100\<bar>
                      \<le> 1 / 20 + 1 / 10 ^ 12))
       \<and> ((\<forall>r \<in> set filtered_posts.
              post_Topic_Category r \<noteq> None \<and> post_Local_Category r \<noteq> None
                    \<and> post_Sentiment_Category r \<noteq> None \<and> post_party r \<noteq> None)
          \<longrightarrow> \<bar>sum_list (map (\<lambda>g. fin_value (percentage_filtered g))
                     (sunburst_data posts_df filtered_posts)) - 100\<bar>
                \<le> of_nat (length (sunburst_data posts_df filtered_posts))
                    * (1 / 20 + 1 / 10 ^ 12))"
proof -
  let ?T = "int (length filtered_posts)"
  let ?groups = "sunburst_data posts_df filtered_posts"
  let ?x = "\<lambda>c. of_int c / of_int ?T * 100 :: rat"
  have T: "?T \<le> 2 ^ 53"
    using len by (metis of_nat_le_iff of_nat_numeral of_nat_power)
  have each: "\<exists>p. percentage_filtered g = Fin p \<and> \<bar>p - ?x (count g)\<bar> \<le> 1 / 20 + 1 / 10 ^ 12"
    if g: "g \<in> set ?groups" for g
  proof -
    have "percentage_filtered g = percentage (count g) ?T"
      using g by (rule sunburst_row)
    with percentage_error [OF sunburst_count_bounds [OF g] T] show ?thesis
      by simp
  qed
  have close: "\<bar>fin_value (percentage_filtered g) - ?x (count g)\<bar> \<le> 1 / 20 + 1 / 10 ^ 12"
    if g: "g \<in> set ?groups" for g
    using each [OF g] by (auto simp: fin_value_def)
  show ?thesis
  proof (intro conjI ballI impI)
    fix g assume "g \<in> set ?groups"
    then have "percentage_filtered g = percentage (count g) ?T"
      by (rule sunburst_row)
    then show "percentage_filtered g =
        round_decimals 1 (fmul (true_divide (count g) ?T) (Fin 100))"
      by (simp only: percentage_def)
  next
    fix g assume "g \<in> set ?groups"
    then show "\<exists>p. percentage_filtered g = Fin p
        \<and> \<bar>p - ?x (count g)\<bar> \<le> 1 / 20 + 1 / 10 ^ 12"
      by (rule each)
  next
    assume nonnull: "\<forall>r \<in> set filtered_posts.
              post_Topic_Category r \<noteq> None \<and> post_Local_Category r \<noteq> None
                    \<and> post_Sentiment_Category r \<noteq> None \<and> post_party r \<noteq> None"
    have Tne: "(of_int ?T :: rat) \<noteq> 0"
      using nonempty by simp
    have "\<forall>r \<in> set filtered_posts. group_key r \<noteq> None"
      using nonnull by (simp only: group_key_None_iff)
    then have "filter (\<lambda>x. group_key x \<noteq> None) filtered_posts = filtered_posts"
      by (simp only: filter_True)
    then have "sum_list (map count ?groups) = ?T"
      by (simp add: count_sunburst_data sunburst_counts_sum length_map_filter_conv)
    then have "sum_list (map ?x (map count ?groups)) = of_int ?T / of_int ?T * 100"
      by (simp only: sum_list_scaled)
    then have exact: "sum_list (map (\<lambda>g. ?x (count g)) ?groups) = 100"
      using Tne by (simp add: comp_def)
    have "\<bar>sum_list (map (\<lambda>g. fin_value (percentage_filtered g)) ?groups)
          - sum_list (map (\<lambda>g. ?x (count g)) ?groups)\<bar>
        \<le> of_nat (length ?groups) * (1 / 20 + 1 / 10 ^ 12)"
      by (rule sum_list_close) (rule close)
    then show "\<bar>sum_list (map (\<lambda>g. fin_value (percentage_filtered g)) ?groups) - 100\<bar>
        \<le> of_nat (length ?groups) * (1 / 20 + 1 / 10 ^ 12)"
      by (simp only: exact)
  qed
qed

theorem percentage_filtered_rounding_and_sum_witness:
  "[\<lparr>post_party = Some ''dem'', post_Sentiment_Category = Some ''pos'',
         post_Local_Category = Some ''local'', post_Topic_Category = Some ''econ'',
         post_Score = Fin 5, post_ave_sentiment = Fin 0\<rparr>,
    \<lparr>post_party = Some ''rep'', post_Sentiment_Category = Some ''neg'',
         post_Local_Category = Some ''local'', post_Topic_Category = Some ''econ'',
         post_Score = Fin 3, post_ave_sentiment = Fin 0\<rparr>,
    \<lparr>post_party = Some ''Both'', post_Sentiment_Category = Some ''neg'',
         post_Local_Category = Some ''local'', post_Topic_Category = Some ''econ'',
         post_Score = Fin 4, post_ave_sentiment = Fin 0\<rparr>] \<noteq> []
   \<and> length
      [\<lparr>post_party = Some ''dem'', post_Sentiment_Category = Some ''pos'',
         post_Local_Category = Some ''local'', post_Topic_Category = Some ''econ'',
         post_Score = Fin 5, post_ave_sentiment = Fin 0\<rparr>,
       \<lparr>post_party = Some ''rep'', post_Sentiment_Category = Some ''neg'',
         post_Local_Category = Some ''local'', post_Topic_Category = Some ''econ'',
         post_Score = Fin 3, post_ave_sentiment = Fin 0\<rparr>,
       \<lparr>post_party = Some ''Both'', post_Sentiment_Category = Some ''neg'',
         post_Local_Category = Some ''local'', post_Topic_Category = Some ''econ'',
         post_Score = Fin 4, post_ave_sentiment = Fin 0\<rparr>] \<le> 2 ^ 53
   \<and> \<bar>sum_list (map (\<lambda>g. fin_value (percentage_filtered g)) (sunburst_data
      [\<lparr>post_party = Some ''dem'', post_Sentiment_Category = Some ''pos'',
         post_Local_Category = Some ''local'', post_Topic_Category = Some ''econ'',
         post_Score = Fin 5, post_ave_sentiment = Fin 0\<rparr>,
       \<lparr>post_party = Some ''rep'', post_Sentiment_Category = Some ''neg'',
         post_Local_Category = Some ''local'', post_Topic_Category = Some ''econ'',
         post_Score = Fin 3, post_ave_sentiment = Fin 0\<rparr>,
       \<lparr>post_party = Some ''Both'', post_Sentiment_Category = Some ''neg'',
         post_Local_Category = Some ''local'', post_Topic_Category = Some ''econ'',
         post_Score = Fin 4, post_ave_sentiment = Fin 0\<rparr>]
      [\<lparr>post_party = Some ''dem'', post_Sentiment_Category = Some ''pos'',
         post_Local_Category = Some ''local'', post_Topic_Category = Some ''econ'',
         post_Score = Fin 5, post_ave_sentiment = Fin 0\<rparr>,
       \<lparr>post_party = Some ''rep'', post_Sentiment_Category = Some ''neg'',
         post_Local_Category = Some ''local'', post_Topic_Category = Some ''econ'',
         post_Score = Fin 3, post_ave_sentiment = Fin 0\<rparr>,
       \<lparr>post_party = Some ''Both'', post_Sentiment_Category = Some ''neg'',
         post_Local_Category = Some ''local'', post_Topic_Category = Some ''econ'',
         post_Score = Fin 4, post_ave_sentiment = Fin 0\<rparr>])) - 100\<bar>
      \<le> 3 * (1 / 20 + 1 / 10 ^ 12)"
proof -
  let ?posts = "[\<lparr>post_party = Some ''dem'', post_Sentiment_Category = Some ''pos'',
         post_Local_Category = Some ''local'', post_Topic_Category = Some ''econ'',
         post_Score = Fin 5, post_ave_sentiment = Fin 0\<rparr>,
       \<lparr>post_party = Some ''rep'', post_Sentiment_Category = Some ''neg'',
         post_Local_Category = Some ''local'', post_Topic_Category = Some ''econ'',
         post_Score = Fin 3, post_ave_sentiment = Fin 0\<rparr>,
       \<lparr>post_party = Some ''Both'', post_Sentiment_Category = Some ''neg'',
         post_Local_Category = Some ''local'', post_Topic_Category = Some ''econ'',
         post_Score = Fin 4, post_ave_sentiment = Fin 0\<rparr>]"
  have nonempty: "?posts \<noteq> []"
    by simp
  have len: "length ?posts \<le> 2 ^ 53"
    by simp
  have nonnull: "\<forall>r \<in> set ?posts. post_Topic_Category r \<noteq> None \<and> post_Local_Category r \<noteq> None
                    \<and> post_Sentiment_Category r \<noteq> None \<and> post_party r \<noteq> None"
    by simp
  have groups: "length (sunburst_data ?posts ?posts) = 3"
    by (simp add: sunburst_data_def sunburst_counts_def groupby_def group_key_def)
  from percentage_filtered_rounding_and_sum [OF nonempty len, of ?posts, THEN conjunct2] nonnull
  have "\<bar>sum_list (map (\<lambda>g. fin_value (percentage_filtered g))
      (sunburst_data ?posts ?posts)) - 100\<bar>
      \<le> of_nat (length (sunburst_data ?posts ?posts)) * (1 / 20 + 1 / 10 ^ 12)"
    by (rule mp)
  then have "\<bar>sum_list (map (\<lambda>g. fin_value (percentage_filtered g))
      (sunburst_data ?posts ?posts)) - 100\<bar> \<le> 3 * (1 / 20 + 1 / 10 ^ 12)"
    by (simp only: groups of_nat_numeral)
  with nonempty len show ?thesis
    by (intro conjI)
qed

text \<open>
  Claim C7. When no post passes the filter (for example because no score lies in the
  score range), the sunburst table has no group: the division by
  \<^verbatim>\<open>total_count_filtered = 0\<close> is applied to an empty column and never takes place. Were
  it to take place, the percentage would be an infinity or NaN, a float like any other,
  and not an error.
\<close>

theorem empty_filtered_posts_no_groups:
  "(run_posts_analysis_filter posts_df f = [] \<longrightarrow> run_posts_analysis posts_df f = [])
   \<and> ((\<forall>r \<in> set posts_df. \<not> (fge (post_Score r) (fst (score_range f))
                                 \<and> fle (post_Score r) (snd (score_range f))))
        \<longrightarrow> run_posts_analysis posts_df f = [])
   \<and> (percentage c 0 = PInf \<or> percentage c 0 = NInf \<or> percentage c 0 = NaN)"
proof (intro conjI impI)
  assume "run_posts_analysis_filter posts_df f = []"
  then show "run_posts_analysis posts_df f = []"
    by (simp add: run_posts_analysis_def sunburst_data_empty)
next
  assume "\<forall>r \<in> set posts_df. \<not> (fge (post_Score r) (fst (score_range f))
                                 \<and> fle (post_Score r) (snd (score_range f)))"
  then have "run_posts_analysis_filter posts_df f = []"
    by (auto simp: posts_filter_conv filter_empty_conv)
  then show "run_posts_analysis posts_df f = []"
    by (simp add: run_posts_analysis_def sunburst_data_empty)
next
  show "percentage c 0 = PInf \<or> percentage c 0 = NInf \<or> percentage c 0 = NaN"
    by (rule percentage_zero_total)
qed

theorem empty_filtered_posts_no_groups_witness:
  "run_posts_analysis
      [\<lparr>post_party = Some ''dem'', post_Sentiment_Category = Some ''pos'',
         post_Local_Category = Some ''local'', post_Topic_Category = Some ''econ'',
         post_Score = Fin 5, post_ave_sentiment = Fin 0\<rparr>,
       \<lparr>post_party = Some ''rep'', post_Sentiment_Category = Some ''neg'',
         post_Local_Category = Some ''local'', post_Topic_Category = Some ''econ'',
         post_Score = Fin 3, post_ave_sentiment = Fin 0\<rparr>]
      \<lparr>score_range = (Fin 6, Fin 10), party = Some ''All'', sentiment = Some ''All'',
        local_cat = Some ''All'', topic = Some ''All''\<rparr>
   = []"
proof -
  let ?posts = "[\<lparr>post_party = Some ''dem'', post_Sentiment_Category = Some ''pos'',
         post_Local_Category = Some ''local'', post_Topic_Category = Some ''econ'',
         post_Score = Fin 5, post_ave_sentiment = Fin 0\<rparr>,
       \<lparr>post_party = Some ''rep'', post_Sentiment_Category = Some ''neg'',
         post_Local_Category = Some ''local'', post_Topic_Category = Some ''econ'',
         post_Score = Fin 3, post_ave_sentiment = Fin 0\<rparr>]"
  let ?f = "\<lparr>score_range = (Fin 6, Fin 10), party = Some ''All'', sentiment = Some ''All'',
        local_cat = Some ''All'', topic = Some ''All''\<rparr>"
  have out: "\<forall>r \<in> set ?posts. \<not> (fge (post_Score r) (fst (score_range ?f))
                                 \<and> fle (post_Score r) (snd (score_range ?f)))"
    by (simp add: fge_def)
  from empty_filtered_posts_no_groups [of ?posts ?f 0, THEN conjunct2, THEN conjunct1] out
  show ?thesis
    by (rule mp)
qed

section \<open>The domain search\<close>

text \<open>
  Where the search does what the specification says: \<^verbatim>\<open>a.com\<close> finds \<^verbatim>\<open>A.COM\<close> and
  \<^verbatim>\<open>sub.a.com.net\<close> and does not find \<^verbatim>\<open>b.org\<close>; a text without a dot (and without
  another operator) finds exactly the domains that contain it, letter case ignored; the
  search and the exact domain are applied one after the other, so that a row is kept when
  it passes both.
\<close>

lemma domain_search_examples:
  "str_contains ''a.com'' ''A.COM'' = Some True
   \<and> str_contains ''a.com'' ''sub.a.com.net'' = Some True
   \<and> str_contains ''a.com'' ''b.org'' = Some False"
  by code_simp

lemma domain_search_literal_text:
  assumes "\<not> list_ex (\<lambda>c. c \<in> set regex_operators) search_text"
      and "CHR ''.'' \<notin> set search_text"
  shows "domain_search search_text df
           = Some (filter (\<lambda>r. spec_substring_ci search_text (Domain r)) df)"
  using assms by (simp add: domain_search_def str_contains_def re_search_literal)

lemma apply_domain_filters_both:
  assumes "search_text \<noteq> []" and "exact_domain \<noteq> []"
      and "domain_search search_text filtered_df = Some d"
  shows "apply_domain_filters filtered_df search_text exact_domain
           = Some (filter (\<lambda>r. re_search search_text (Domain r) \<and> Domain r = exact_domain)
                     filtered_df)"
  using assms
  by (auto simp: apply_domain_filters_def domain_search_def str_contains_def split: if_splits)

text \<open>
  Claim C6. The claim asks for a substring search: no row is matched whose domain does
  not contain the search text. The code searches the text as a regular expression, and the
  dot of \<^verbatim>\<open>a.com\<close> stands for any character: the row of domain \<^verbatim>\<open>abcom.org\<close> is kept,
  although \<^verbatim>\<open>a.com\<close> does not occur in \<^verbatim>\<open>abcom.org\<close>.
\<close>

theorem domain_search_dot_is_wildcard:
  "apply_domain_filters
     [\<lparr>Domain = ''abcom.org'', Global_Classification = Some ''Democrat'',
       Sentiment = Some ''pos'', Local_Category = Some ''all'', Topic_Category = Some ''econ'',
       Score = Fin 5, Combination_Total_Count = 10\<rparr>]
     ''a.com'' []
   = Some
     [\<lparr>Domain = ''abcom.org'', Global_Classification = Some ''Democrat'',
       Sentiment = Some ''pos'', Local_Category = Some ''all'', Topic_Category = Some ''econ'',
       Score = Fin 5, Combination_Total_Count = 10\<rparr>]
   \<and> \<not> spec_substring_ci ''a.com'' ''abcom.org''"
  by code_simp

end
